theory Spec2Isabelle
  imports Main "HOL-Library.Word" "HOL-Library.State_Monad"
begin

section \<open>JavaScript values used by the handlers\<close>

text \<open>
  The strings of the upload handler, of the reading page and of the event stream are modelled
  as HOL \<^typ>\<open>string\<close>, one \<^typ>\<open>char\<close> per code unit, which covers the code units below 256.
  The locator strings of the position labels are modelled as lists of code units of any value.
  A JavaScript number that holds an integer is modelled as an \<^typ>\<open>int\<close>, and \<open>NaN\<close> as
  \<open>None\<close>. The \<open>console.log\<close> calls of the source have no effect on any result and are left
  out.
\<close>

text \<open>\<open>String.prototype.split\<close> with a separator that matches single code units.\<close>

fun split_on :: "('a \<Rightarrow> bool) \<Rightarrow> 'a list \<Rightarrow> 'a list list" where
  "split_on sep [] = [[]]"
| "split_on sep (c # cs) =
     (if sep c then [] # split_on sep cs
      else (case split_on sep cs of
              [] \<Rightarrow> [[c]]
            | l # ls \<Rightarrow> (c # l) # ls))"

definition startsWith :: "string \<Rightarrow> string \<Rightarrow> bool" where
  "startsWith s p = (take (length p) s = p)"

definition endsWith :: "string \<Rightarrow> string \<Rightarrow> bool" where
  "endsWith s p = (length p \<le> length s \<and> drop (length s - length p) s = p)"

text \<open>\<open>String.prototype.toLowerCase\<close> on code units below 256: the ASCII capitals and the
  Latin-1 capitals (\<open>0xC0\<close> to \<open>0xDE\<close> without the multiplication sign \<open>0xD7\<close>) move up by 32.\<close>

definition toLowerCase_char :: "char \<Rightarrow> char" where
  "toLowerCase_char c =
     (let n = (of_char c :: nat) in
      if (65 \<le> n \<and> n \<le> 90) \<or> (192 \<le> n \<and> n \<le> 222 \<and> n \<noteq> 215)
      then char_of (n + 32) else c)"

definition toLowerCase :: "string \<Rightarrow> string" where
  "toLowerCase s = map toLowerCase_char s"

definition is_digit :: "char \<Rightarrow> bool" where
  "is_digit ch = (48 \<le> (of_char ch :: nat) \<and> (of_char ch :: nat) \<le> 57)"

definition hex_digit :: "nat \<Rightarrow> char" where
  "hex_digit d = (if d < 10 then char_of (48 + d) else char_of (87 + d))"

text \<open>\<open>n.toString(16)\<close> and the decimal digits of a natural number.\<close>

fun toString16 :: "nat \<Rightarrow> string" where
  "toString16 n = (if n < 16 then [hex_digit n] else toString16 (n div 16) @ [hex_digit (n mod 16)])"

fun decimal :: "nat \<Rightarrow> string" where
  "decimal n = (if n < 10 then [hex_digit n] else decimal (n div 10) @ [hex_digit (n mod 10)])"

declare toString16.simps [simp del] decimal.simps [simp del]

definition padStart :: "nat \<Rightarrow> char \<Rightarrow> string \<Rightarrow> string" where
  "padStart targetLength fill s = replicate (targetLength - length s) fill @ s"

text \<open>A locator string as the sequence of its code units; a code unit of JavaScript is a
  number below 65536, and no definition below depends on that bound. \<open>lit\<close> gives the code
  units of a string of the source text.\<close>

type_synonym code_unit = nat

type_synonym jsstring = "code_unit list"

definition lit :: "string \<Rightarrow> jsstring" where
  "lit s = map of_char s"

text \<open>The code units \<open>parseInt\<close> skips at the front of its input: white space (tab, vertical
  tab, form feed, space, no-break space, the byte order mark and the space separators of
  Unicode) and the line terminators (line feed, carriage return, line and paragraph
  separator).\<close>

definition StrWhiteSpaceChar :: "code_unit \<Rightarrow> bool" where
  "StrWhiteSpaceChar u =
     (u \<in> set [9, 10, 11, 12, 13, 32, 160, 5760, 8232, 8233, 8239, 8287, 12288, 65279]
      \<or> (8192 \<le> u \<and> u \<le> 8202))"

definition decimal_digit :: "code_unit \<Rightarrow> bool" where
  "decimal_digit u = (48 \<le> u \<and> u \<le> 57)"

definition digit_value :: "code_unit \<Rightarrow> nat" where
  "digit_value u = u - 48"

definition digits_value :: "jsstring \<Rightarrow> nat" where
  "digits_value Z = foldl (\<lambda>n u. 10 * n + digit_value u) 0 Z"

text \<open>\<open>parseInt(p, 10)\<close>: skip leading white space, read an optional sign (\<open>+\<close> is 43, \<open>-\<close>
  is 45), then the longest run of decimal digits; no digit at all gives \<open>NaN\<close>. Whatever
  follows the digits is ignored. The result is the mathematical value of the digits; the
  Number the engine returns is the double closest to it, which is that value itself up to
  \<open>2 ^ 53\<close>.\<close>

definition parseInt10 :: "jsstring \<Rightarrow> int option" where
  "parseInt10 inputString =
     (let S = dropWhile StrWhiteSpaceChar inputString;
          sign = (case S of u # _ \<Rightarrow> if u = 45 then - 1 else 1 | [] \<Rightarrow> (1 :: int));
          S' = (case S of u # rest \<Rightarrow> if u = 43 \<or> u = 45 then rest else S | [] \<Rightarrow> S);
          Z = takeWhile decimal_digit S'
      in if Z = [] then None else Some (sign * int (digits_value Z)))"

text \<open>The text a template literal gives for the Number read from digits of value \<open>n\<close>: its
  decimal digits, with a minus sign when negative, for a magnitude up to \<open>2 ^ 53\<close>, which a
  double holds exactly and the engine prints in full. Beyond that the text is that of the
  closest double, in the engine's format; it is the parameter \<open>beyond\<close>.\<close>

definition Number_toString :: "(int \<Rightarrow> jsstring) \<Rightarrow> int \<Rightarrow> jsstring" where
  "Number_toString beyond n =
     (if \<bar>n\<bar> \<le> 2 ^ 53
      then (if n < 0 then lit ''-'' @ lit (decimal (nat (- n))) else lit (decimal (nat n)))
      else beyond n)"

text \<open>\<open>pos.replaceAll("/", ":")\<close>; the slash is 47 and the colon 58.\<close>

definition compact :: "jsstring \<Rightarrow> jsstring" where
  "compact pos = map (\<lambda>u. if u = 47 then 58 else u) pos"


section \<open>Position labels of the assistant pane\<close>

text \<open>\<open>formatSelectionPositionLabel\<close> of \<open>src/components/ai-agent-pane.tsx\<close>. \<open>parseThreePart\<close>
  splits at every slash and colon (\<open>pos.split(/[/:]/)\<close>), reads every part with \<open>parseInt\<close> and
  gives up when there are fewer than three parts or when any part, also one after the third,
  is \<open>NaN\<close>.\<close>

definition locator_parts :: "jsstring \<Rightarrow> jsstring list" where
  "locator_parts pos = split_on (\<lambda>u. u = 47 \<or> u = 58) pos"

definition parseThreePart :: "jsstring \<Rightarrow> (int \<times> int \<times> int) option" where
  "parseThreePart pos =
     (let parts = map parseInt10 (locator_parts pos) in
      if length parts < 3 \<or> None \<in> set parts then None
      else (case parts of
              Some a # Some b # Some c # _ \<Rightarrow> Some (a, b, c)
            | _ \<Rightarrow> None))"

record formatted =
  label :: jsstring
  title :: jsstring

definition formatSelectionPositionLabel ::
  "(int \<Rightarrow> jsstring) \<Rightarrow> jsstring \<Rightarrow> jsstring \<Rightarrow> formatted" where
  "formatSelectionPositionLabel beyond start end =
     (let start3 = parseThreePart start;
          end3 = parseThreePart end
      in case (start3, end3) of
           (Some (a, b, c), Some (a', b', c')) \<Rightarrow>
             \<lparr> label = lit ''('' @ Number_toString beyond a @ lit '':'' @ Number_toString beyond b
                        @ lit ''-'' @ Number_toString beyond a' @ lit '':''
                        @ Number_toString beyond b' @ lit '')'',
               title = lit ''start='' @ start @ lit '' end='' @ end \<rparr>
         | _ \<Rightarrow>
             \<lparr> label = lit ''('' @ compact start @ lit ''-'' @ compact end @ lit '')'',
               title = lit ''start='' @ start @ lit '' end='' @ end \<rparr>)"

text \<open>The part of \<open>handleExplainSelection\<close> that uses the formatter: from the selection position
  it builds the label and title shown with the user message, and the arguments of the summary
  query (\<open>queryPdfSummariesForPosition\<close> for a PDF, \<open>querySummariesForPosition\<close> otherwise).\<close>

record selection_position =
  pos_start :: jsstring
  pos_end :: jsstring

datatype summary_query =
    QueryPdfSummaries string jsstring jsstring
  | QuerySummaries string jsstring jsstring

record explain_context =
  selectionPositionLabel :: jsstring
  selectionPositionTitle :: jsstring
  summaries_query :: summary_query

definition explain_selection_context ::
  "(int \<Rightarrow> jsstring) \<Rightarrow> string \<Rightarrow> bool \<Rightarrow> selection_position \<Rightarrow> explain_context" where
  "explain_selection_context beyond bookId isPdf position =
     (let formatted = formatSelectionPositionLabel beyond (pos_start position) (pos_end position) in
      \<lparr> selectionPositionLabel = label formatted,
        selectionPositionTitle = title formatted,
        summaries_query =
          (if isPdf then QueryPdfSummaries bookId (pos_start position) (pos_end position)
           else QuerySummaries bookId (pos_start position) (pos_end position)) \<rparr>)"


section \<open>The services the handlers run against\<close>

text \<open>
  The upload handler and the reading page talk to the hosted backend through the Supabase
  client and to the platform through \<open>crypto\<close>. Neither is code of this repository, so both
  are a parameter of the model: a record of operations over a state \<^typ>\<open>'s\<close>. A backend call
  reports failure through the \<open>error\<close> field of its reply, as the client library does; a
  rejected promise of a service is outside the model.
\<close>

type_synonym bytes = "8 word list"

datatype json =
    JNull
  | JBool bool
  | JNumber string
  | JString string
  | JArray "json list"
  | JObject "(string \<times> json) list"

record api_error =
  message :: string
  details :: string
  hint :: string
  code :: string

datatype 'a reply = Reply (data: "'a option") (error: "api_error option")

record book_row =
  id_col :: string
  title_col :: string
  file_size :: nat
  file_checksum :: string
  uploaded_by :: string
  storage_path :: string
  file_name :: string
  readium_manifest_path :: "string option"

text \<open>The columns a query selects: \<open>id, title\<close> in the upload handler,
  \<open>id, title, readium_manifest_path\<close> in the reading page.\<close>

record book_ref =
  ref_id :: string
  ref_title :: string

record book_entry =
  entry_id :: string
  entry_title :: string
  entry_manifest_path :: "string option"

record user_book_row =
  link_id :: nat
  user_id :: string
  book_id :: string

record 's runtime =
  auth_getUser :: "('s, string reply) state"
  books_select_by_checksum :: "string \<Rightarrow> ('s, book_ref reply) state"
  books_select_by_id :: "string \<Rightarrow> ('s, book_entry reply) state"
  books_insert :: "book_row \<Rightarrow> ('s, api_error option) state"
  books_delete_by_id :: "string \<Rightarrow> ('s, api_error option) state"
  user_books_select :: "string \<Rightarrow> string \<Rightarrow> ('s, nat reply) state"
  user_books_insert :: "string \<Rightarrow> string \<Rightarrow> ('s, api_error option) state"
  storage_upload :: "string \<Rightarrow> bytes \<Rightarrow> ('s, api_error option) state"
  storage_remove :: "string list \<Rightarrow> ('s, api_error option) state"
  crypto_digest :: "bytes \<Rightarrow> bytes"
  crypto_randomUUID :: "('s, string) state"


section \<open>The upload handler\<close>

text \<open>\<open>POST\<close> of \<open>src/app/api/books/upload/route.ts\<close>, in three parts: the duplicate path
  (lines 60 to 93), the creation of a new book (lines 95 to 225), and the handler from its entry
  to the duplicate check, which continues with one of the two.\<close>

record File =
  File_name :: string
  File_type :: string
  File_arrayBuffer :: bytes

text \<open>What the handler reads of the request. Awaiting \<open>request.formData()\<close> throws a
  \<open>TypeError\<close> when the body is not form data; otherwise the handler reads
  \<open>formData.get("file")\<close>, which is a file, a string (a text field, or a part without a file
  name) or \<open>null\<close>. The source casts the entry to \<open>File\<close>; the cast checks nothing.\<close>

datatype FormDataEntryValue =
    FileValue File
  | StringValue string

datatype request =
    NotFormData string
  | FormData "FormDataEntryValue option"

record response =
  status :: nat
  body :: json

definition NextResponse_json :: "(string \<times> json) list \<Rightarrow> nat \<Rightarrow> response" where
  "NextResponse_json props st = \<lparr> status = st, body = JObject props \<rparr>"

text \<open>\<open>hashArray.map(b => b.toString(16).padStart(2, "0")).join("")\<close>.\<close>

definition hashHex_of :: "bytes \<Rightarrow> string" where
  "hashHex_of hashArray = concat (map (\<lambda>b. padStart 2 (CHR ''0'') (toString16 (unat b))) hashArray)"

text \<open>\<open>file.name.replace(/\.epub$/i, "")\<close>: the pattern matches the last five characters only,
  and each of its letters matches its own two cases.\<close>

definition strip_epub_suffix :: "string \<Rightarrow> string" where
  "strip_epub_suffix nm =
     (if endsWith (toLowerCase nm) ''.epub'' then take (length nm - 5) nm else nm)"

definition duplicate_response :: "string \<Rightarrow> response" where
  "duplicate_response bid =
     NextResponse_json
       [(''book_id'', JString bid),
        (''duplicate'', JBool True),
        (''message'', JString ''Book already exists and has been added to your library'')] 200"

definition POST_duplicate :: "'s runtime \<Rightarrow> string \<Rightarrow> book_ref \<Rightarrow> ('s, response) state" where
  "POST_duplicate supabase user existingBook = do {
     existingLink \<leftarrow> user_books_select supabase user (ref_id existingBook);
     (case data existingLink of
        None \<Rightarrow> do {
          linkError \<leftarrow> user_books_insert supabase user (ref_id existingBook);
          (case linkError of
             Some e \<Rightarrow>
               State_Monad.return
                 (NextResponse_json
                    [(''error'', JString ''Failed to link book to user''),
                     (''details'', JString (message e))] 500)
           | None \<Rightarrow> State_Monad.return (duplicate_response (ref_id existingBook)))
        }
      | Some _ \<Rightarrow> State_Monad.return (duplicate_response (ref_id existingBook)))
   }"

definition POST_new_book :: "'s runtime \<Rightarrow> string \<Rightarrow> File \<Rightarrow> string \<Rightarrow> ('s, response) state" where
  "POST_new_book supabase user file hashHex = do {
     bookId \<leftarrow> crypto_randomUUID supabase;
     let storagePath = ''books/'' @ user @ ''/'' @ bookId @ ''.epub'';
     let bookData = \<lparr> id_col = bookId,
                      title_col = strip_epub_suffix (File_name file),
                      file_size = length (File_arrayBuffer file),
                      file_checksum = hashHex,
                      uploaded_by = user,
                      storage_path = storagePath,
                      file_name = File_name file,
                      readium_manifest_path = None \<rparr>;
     bookError \<leftarrow> books_insert supabase bookData;
     (case bookError of
        Some e \<Rightarrow> do {
          let failed = State_Monad.return
                         (NextResponse_json
                            [(''error'', JString ''Failed to create book record''),
                             (''details'', JString (message e)),
                             (''code'', JString (code e)),
                             (''hint'', JString (hint e))] 500);
          if code e = ''23505'' then do {
            raceConditionBook \<leftarrow> books_select_by_checksum supabase hashHex;
            (case data raceConditionBook of
               Some raceBook \<Rightarrow> do {
                 existingLink \<leftarrow> user_books_select supabase user (ref_id raceBook);
                 (case data existingLink of
                    None \<Rightarrow> do {
                      _ \<leftarrow> user_books_insert supabase user (ref_id raceBook);
                      State_Monad.return (duplicate_response (ref_id raceBook))
                    }
                  | Some _ \<Rightarrow> State_Monad.return (duplicate_response (ref_id raceBook)))
               }
             | None \<Rightarrow> failed)
          } else failed
        }
      | None \<Rightarrow> do {
          uploadError \<leftarrow> storage_upload supabase storagePath (File_arrayBuffer file);
          (case uploadError of
             Some e \<Rightarrow> do {
               _ \<leftarrow> books_delete_by_id supabase bookId;
               State_Monad.return
                 (NextResponse_json
                    [(''error'', JString ''Failed to upload file to storage''),
                     (''details'', JString (message e))] 500)
             }
           | None \<Rightarrow> do {
               linkError \<leftarrow> user_books_insert supabase user bookId;
               (case linkError of
                  Some e \<Rightarrow> do {
                    _ \<leftarrow> books_delete_by_id supabase bookId;
                    _ \<leftarrow> storage_remove supabase [storagePath];
                    State_Monad.return
                      (NextResponse_json
                         [(''error'', JString ''Failed to link book to user''),
                          (''details'', JString (message e))] 500)
                  }
                | None \<Rightarrow>
                    State_Monad.return
                      (NextResponse_json
                         [(''book_id'', JString bookId),
                          (''message'', JString ''Book uploaded successfully'')] 200))
             })
        })
   }"

text \<open>The \<open>catch\<close> of lines 227 to 235, for a thrown \<open>Error\<close> with the given message.\<close>

definition POST_catch :: "string \<Rightarrow> response" where
  "POST_catch msg =
     NextResponse_json
       [(''error'', JString ''Internal server error''), (''details'', JString msg)] 500"

text \<open>The message of the \<open>TypeError\<close> thrown by \<open>file.name.toLowerCase()\<close> when \<open>file.name\<close>
  is \<open>undefined\<close>; the wording is that of V8, the engine of Node.js.\<close>

definition TypeError_toLowerCase :: string where
  "TypeError_toLowerCase = ''Cannot read properties of undefined (reading 'toLowerCase')''"

text \<open>A string entry that is not empty passes \<open>if (!file)\<close>. Its \<open>type\<close> and \<open>name\<close> are
  \<open>undefined\<close>, so the first operand of the check of line 30 holds and the second one throws.\<close>

definition POST :: "'s runtime \<Rightarrow> request \<Rightarrow> ('s, response) state" where
  "POST supabase request = do {
     auth \<leftarrow> auth_getUser supabase;
     (case (error auth, data auth) of
        (None, Some user) \<Rightarrow>
          (case request of
             NotFormData msg \<Rightarrow> State_Monad.return (POST_catch msg)
           | FormData None \<Rightarrow>
               State_Monad.return (NextResponse_json [(''error'', JString ''No file provided'')] 400)
           | FormData (Some (StringValue s)) \<Rightarrow>
               if s = []
               then State_Monad.return
                      (NextResponse_json [(''error'', JString ''No file provided'')] 400)
               else State_Monad.return (POST_catch TypeError_toLowerCase)
           | FormData (Some (FileValue file)) \<Rightarrow>
               if File_type file \<noteq> ''application/epub+zip''
                  \<and> \<not> endsWith (toLowerCase (File_name file)) ''.epub''
               then State_Monad.return
                      (NextResponse_json
                         [(''error'', JString ''Invalid file type. Expected EPUB file.'')] 400)
               else do {
                 let arrayBuffer = File_arrayBuffer file;
                 let hashBuffer = crypto_digest supabase arrayBuffer;
                 let hashHex = hashHex_of hashBuffer;
                 check \<leftarrow> books_select_by_checksum supabase hashHex;
                 let proceed = (case data check of
                                  Some existingBook \<Rightarrow> POST_duplicate supabase user existingBook
                                | None \<Rightarrow> POST_new_book supabase user file hashHex);
                 (case error check of
                    Some checkError \<Rightarrow>
                      if code checkError \<noteq> ''PGRST116''
                      then State_Monad.return
                             (NextResponse_json
                                [(''error'', JString ''Database error''),
                                 (''details'', JString (message checkError))] 500)
                      else proceed
                  | None \<Rightarrow> proceed)
               })
      | _ \<Rightarrow> State_Monad.return (NextResponse_json [(''error'', JString ''Unauthorized'')] 401))
   }"


section \<open>The reading page\<close>

text \<open>\<open>ReadBookPage\<close> of \<open>src/app/read/[id]/page.tsx\<close>. \<open>redirect\<close> does not return, so each
  redirect ends the function. An empty manifest path is falsy, like a missing one.\<close>

datatype page =
    Redirect string
  | ManifestNotFound
  | BookReader string string string

definition ReadBookPage :: "'s runtime \<Rightarrow> string \<Rightarrow> ('s, page) state" where
  "ReadBookPage supabase ident = do {
     auth \<leftarrow> auth_getUser supabase;
     (case (error auth, data auth) of
        (None, Some user) \<Rightarrow> do {
          bookReply \<leftarrow> books_select_by_id supabase ident;
          (case (error bookReply, data bookReply) of
             (None, Some book) \<Rightarrow> do {
               userBook \<leftarrow> user_books_select supabase user ident;
               (case data userBook of
                  None \<Rightarrow> State_Monad.return (Redirect ''/'')
                | Some _ \<Rightarrow>
                    (case entry_manifest_path book of
                       None \<Rightarrow> State_Monad.return ManifestNotFound
                     | Some manifestPath \<Rightarrow>
                         if manifestPath = [] then State_Monad.return ManifestNotFound
                         else State_Monad.return
                                (BookReader ident manifestPath (entry_title book))))
             }
           | _ \<Rightarrow> State_Monad.return (Redirect ''/''))
        }
      | _ \<Rightarrow> State_Monad.return (Redirect ''/auth/login''))
   }"


section \<open>A scripted backend\<close>

text \<open>
  To state what a handler does for every behaviour of the services, it is run against a
  backend whose replies are given in advance and whose state is the list of the calls made
  so far. The first lookup by checksum gets \<open>existingBook_reply\<close>, a later one
  \<open>raceConditionBook_reply\<close>; no run makes more than one call of any other kind that has a
  reply the handler reads.
\<close>

datatype call =
    GetUser
  | RandomUUID
  | SelectBookByChecksum string
  | SelectBookById string
  | InsertBook book_row
  | DeleteBook string
  | SelectUserBook string string
  | InsertUserBook string string
  | StorageUpload string bytes
  | StorageRemove "string list"

record script =
  getUser_reply :: "string reply"
  randomUUID_reply :: string
  existingBook_reply :: "book_ref reply"
  raceConditionBook_reply :: "book_ref reply"
  book_reply :: "book_entry reply"
  existingLink_reply :: "nat reply"
  linkError_reply :: "api_error option"
  bookError_reply :: "api_error option"
  uploadError_reply :: "api_error option"
  deleteError_reply :: "api_error option"
  removeError_reply :: "api_error option"

definition answer :: "'a \<Rightarrow> call \<Rightarrow> (call list, 'a) state" where
  "answer r c = State (\<lambda>log. (r, log @ [c]))"

fun is_checksum_lookup :: "call \<Rightarrow> bool" where
  "is_checksum_lookup (SelectBookByChecksum _) = True"
| "is_checksum_lookup _ = False"

definition scripted :: "(bytes \<Rightarrow> bytes) \<Rightarrow> script \<Rightarrow> call list runtime" where
  "scripted digest sc =
     \<lparr> auth_getUser = answer (getUser_reply sc) GetUser,
       books_select_by_checksum = (\<lambda>h. State (\<lambda>log.
          (if filter is_checksum_lookup log = [] then existingBook_reply sc
           else raceConditionBook_reply sc,
           log @ [SelectBookByChecksum h]))),
       books_select_by_id = (\<lambda>i. answer (book_reply sc) (SelectBookById i)),
       books_insert = (\<lambda>row. answer (bookError_reply sc) (InsertBook row)),
       books_delete_by_id = (\<lambda>i. answer (deleteError_reply sc) (DeleteBook i)),
       user_books_select = (\<lambda>u b. answer (existingLink_reply sc) (SelectUserBook u b)),
       user_books_insert = (\<lambda>u b. answer (linkError_reply sc) (InsertUserBook u b)),
       storage_upload = (\<lambda>path buf. answer (uploadError_reply sc) (StorageUpload path buf)),
       storage_remove = (\<lambda>paths. answer (removeError_reply sc) (StorageRemove paths)),
       crypto_digest = digest,
       crypto_randomUUID = answer (randomUUID_reply sc) RandomUUID \<rparr>"

definition upload :: "(bytes \<Rightarrow> bytes) \<Rightarrow> script \<Rightarrow> request \<Rightarrow> response \<times> call list" where
  "upload digest sc request = run_state (POST (scripted digest sc) request) []"

definition read_page :: "script \<Rightarrow> string \<Rightarrow> page \<times> call list" where
  "read_page sc ident = run_state (ReadBookPage (scripted (\<lambda>b. b) sc) ident) []"

text \<open>The calls that change what the backend stores.\<close>

fun is_write :: "call \<Rightarrow> bool" where
  "is_write (InsertBook _) = True"
| "is_write (DeleteBook _) = True"
| "is_write (InsertUserBook _ _) = True"
| "is_write (StorageUpload _ _) = True"
| "is_write (StorageRemove _) = True"
| "is_write _ = False"


section \<open>A reference backend\<close>

text \<open>
  To count records, the handlers are also run against a backend held in memory, one request
  at a time and without faults: two tables and a storage bucket. It follows the contracts
  the handlers rely on: \<open>.single()\<close> gives the row when exactly one matches and the code
  \<open>PGRST116\<close> otherwise; an insert into \<open>books\<close> that repeats an identifier or a checksum is
  refused with the code \<open>23505\<close>; an upload does not overwrite. The link table has no
  constraint.
\<close>

record backend =
  session_user :: "string option"
  books :: "book_row list"
  user_books :: "user_book_row list"
  epubs :: "(string \<times> bytes) list"
  uuids_used :: nat

definition no_rows :: api_error where
  "no_rows = \<lparr> message = ''JSON object requested, multiple (or no) rows returned'',
               details = [], hint = [], code = ''PGRST116'' \<rparr>"

definition unique_violation :: api_error where
  "unique_violation = \<lparr> message = ''duplicate key value violates unique constraint'',
                        details = [], hint = [], code = ''23505'' \<rparr>"

definition no_session :: api_error where
  "no_session = \<lparr> message = ''Auth session missing!'', details = [], hint = [], code = [] \<rparr>"

definition already_exists :: api_error where
  "already_exists = \<lparr> message = ''The resource already exists'', details = [], hint = [],
                      code = [] \<rparr>"

definition single :: "'a list \<Rightarrow> 'a reply" where
  "single rows = (case rows of [r] \<Rightarrow> Reply (Some r) None | _ \<Rightarrow> Reply None (Some no_rows))"

definition in_memory :: "(bytes \<Rightarrow> bytes) \<Rightarrow> (nat \<Rightarrow> string) \<Rightarrow> backend runtime" where
  "in_memory digest uuid =
     \<lparr> auth_getUser = State (\<lambda>db.
          (case session_user db of
             Some u \<Rightarrow> Reply (Some u) None
           | None \<Rightarrow> Reply None (Some no_session), db)),
       books_select_by_checksum = (\<lambda>h. State (\<lambda>db.
          (single (map (\<lambda>b. \<lparr> ref_id = id_col b, ref_title = title_col b \<rparr>)
                       (filter (\<lambda>b. file_checksum b = h) (books db))), db))),
       books_select_by_id = (\<lambda>i. State (\<lambda>db.
          (single (map (\<lambda>b. \<lparr> entry_id = id_col b, entry_title = title_col b,
                              entry_manifest_path = readium_manifest_path b \<rparr>)
                       (filter (\<lambda>b. id_col b = i) (books db))), db))),
       books_insert = (\<lambda>row. State (\<lambda>db.
          if filter (\<lambda>b. id_col b = id_col row \<or> file_checksum b = file_checksum row) (books db)
             \<noteq> []
          then (Some unique_violation, db)
          else (None, db \<lparr> books := books db @ [row] \<rparr>))),
       books_delete_by_id = (\<lambda>i. State (\<lambda>db.
          (None, db \<lparr> books := filter (\<lambda>b. id_col b \<noteq> i) (books db) \<rparr>))),
       user_books_select = (\<lambda>u b. State (\<lambda>db.
          (single (map link_id (filter (\<lambda>l. user_id l = u \<and> book_id l = b) (user_books db))),
           db))),
       user_books_insert = (\<lambda>u b. State (\<lambda>db.
          (None, db \<lparr> user_books := user_books db @
                        [\<lparr> link_id = length (user_books db), user_id = u, book_id = b \<rparr>] \<rparr>))),
       storage_upload = (\<lambda>path buf. State (\<lambda>db.
          if filter (\<lambda>obj. fst obj = path) (epubs db) \<noteq> []
          then (Some already_exists, db)
          else (None, db \<lparr> epubs := epubs db @ [(path, buf)] \<rparr>))),
       storage_remove = (\<lambda>paths. State (\<lambda>db.
          (None, db \<lparr> epubs := filter (\<lambda>obj. fst obj \<notin> set paths) (epubs db) \<rparr>))),
       crypto_digest = digest,
       crypto_randomUUID = State (\<lambda>db.
          (uuid (uuids_used db), db \<lparr> uuids_used := Suc (uuids_used db) \<rparr>)) \<rparr>"

text \<open>One upload by a user: the session is set to that user, then the handler runs.\<close>

definition upload_as ::
  "(bytes \<Rightarrow> bytes) \<Rightarrow> (nat \<Rightarrow> string) \<Rightarrow> string \<Rightarrow> File \<Rightarrow> backend \<Rightarrow> response \<times> backend" where
  "upload_as digest uuid u file db =
     run_state (POST (in_memory digest uuid) (FormData (Some (FileValue file))))
       (db \<lparr> session_user := Some u \<rparr>)"



section \<open>The streaming handler of the assistant pane\<close>

text \<open>
  \<open>handleStreamingResponse\<close> of \<open>src/components/ai-agent-pane.tsx\<close>. The body of the response
  is the list of the chunks read before the reader reports \<open>done\<close>, each already decoded to
  text (the decoder runs in streaming mode, so the texts of the chunks join to the text of the
  body). \<open>JSON.parse\<close> is the platform's and is a parameter: it returns \<open>None\<close> where it
  throws. A number is carried as the text JavaScript renders it as. The calls of the two state
  setters are collected in order, so that they can be counted, and are then applied to the
  state of the pane.
\<close>

datatype role = User | Assistant

record AIMessage =
  msg_id :: string
  msg_role :: role
  content :: string
  timestamp :: nat
  selectionPositionLabel_opt :: "string option"
  selectionPositionTitle_opt :: "string option"

record pane =
  messages :: "AIMessage list"
  isLoading :: bool

datatype setter =
    SetIsLoading bool
  | AppendContent string string

fun apply_setter :: "pane \<Rightarrow> setter \<Rightarrow> pane" where
  "apply_setter p (SetIsLoading b) = p \<lparr> isLoading := b \<rparr>"
| "apply_setter p (AppendContent ident text) =
     p \<lparr> messages :=
           map (\<lambda>msg. if msg_id msg = ident then msg \<lparr> content := content msg @ text \<rparr> else msg)
               (messages p) \<rparr>"

text \<open>Truthiness of a parsed value, and the string it becomes when appended to a string.\<close>

fun truthy :: "json \<Rightarrow> bool" where
  "truthy JNull = False"
| "truthy (JBool b) = b"
| "truthy (JNumber rendered) = (rendered \<noteq> ''0'')"
| "truthy (JString text) = (text \<noteq> [])"
| "truthy (JArray _) = True"
| "truthy (JObject _) = True"

fun join :: "string \<Rightarrow> string list \<Rightarrow> string" where
  "join sep [] = []"
| "join sep [x] = x"
| "join sep (x # y # ys) = x @ sep @ join sep (y # ys)"

fun ToString :: "json \<Rightarrow> string" where
  "ToString JNull = ''null''"
| "ToString (JBool b) = (if b then ''true'' else ''false'')"
| "ToString (JNumber rendered) = rendered"
| "ToString (JString text) = text"
| "ToString (JArray elems) =
     join '','' (map (\<lambda>v. case v of JNull \<Rightarrow> [] | _ \<Rightarrow> ToString v) elems)"
| "ToString (JObject _) = ''[object Object]''"

text \<open>\<open>parsed.content\<close>: the property of an object (a repeated key keeps its last value);
  \<open>undefined\<close> on any other value but \<open>null\<close>, where the read throws inside the \<open>try\<close>. In both
  of these cases nothing is appended, and both are \<open>None\<close> here.\<close>

definition parsed_content :: "json \<Rightarrow> json option" where
  "parsed_content parsed = (case parsed of JObject props \<Rightarrow> map_of (rev props) ''content'' | _ \<Rightarrow> None)"

datatype line_outcome = Returned "setter list" | Continued "setter list"

definition process_line :: "(string \<Rightarrow> json option) \<Rightarrow> string \<Rightarrow> string \<Rightarrow> line_outcome" where
  "process_line JSON_parse assistantMessageId line =
     (if startsWith line ''data: '' then
        (let payload = drop 6 line in
         if payload = ''[DONE]'' then Returned [SetIsLoading False]
         else (case JSON_parse payload of
                 None \<Rightarrow> Continued []
               | Some parsed \<Rightarrow>
                   (case parsed_content parsed of
                      None \<Rightarrow> Continued []
                    | Some v \<Rightarrow>
                        if truthy v then Continued [AppendContent assistantMessageId (ToString v)]
                        else Continued [])))
      else Continued [])"

text \<open>The \<open>for\<close> loop over the complete lines of one read; \<open>True\<close> when it returned at the
  terminator line.\<close>

fun process_lines :: "(string \<Rightarrow> json option) \<Rightarrow> string \<Rightarrow> string list \<Rightarrow> bool \<times> setter list" where
  "process_lines JSON_parse ident [] = (False, [])"
| "process_lines JSON_parse ident (line # rest) =
     (case process_line JSON_parse ident line of
        Returned calls \<Rightarrow> (True, calls)
      | Continued calls \<Rightarrow>
          (case process_lines JSON_parse ident rest of (returned, calls') \<Rightarrow> (returned, calls @ calls')))"

definition newline :: "char \<Rightarrow> bool" where
  "newline ch = (ch = CHR 0x0A)"

text \<open>The \<open>while (true)\<close> loop: one round per chunk, the unfinished last line carried in
  \<open>buffer\<close>; after the last chunk the reader is done and the loading state ends.\<close>

fun read_loop :: "(string \<Rightarrow> json option) \<Rightarrow> string \<Rightarrow> string list \<Rightarrow> string \<Rightarrow> setter list" where
  "read_loop JSON_parse ident [] buffer = [SetIsLoading False]"
| "read_loop JSON_parse ident (chunk # chunks) buffer =
     (let buffer1 = buffer @ chunk;
          lines = split_on newline buffer1;
          buffer2 = (if lines = [] then [] else last lines);
          lines' = butlast lines
      in case process_lines JSON_parse ident lines' of
           (True, calls) \<Rightarrow> calls
         | (False, calls) \<Rightarrow> calls @ read_loop JSON_parse ident chunks buffer2)"

record Response =
  ok :: bool
  statusText :: string
  response_body :: "string list option"

definition handleStreamingResponse ::
  "(string \<Rightarrow> json option) \<Rightarrow> Response \<Rightarrow> string \<Rightarrow> string + setter list" where
  "handleStreamingResponse JSON_parse response assistantMessageId =
     (if \<not> ok response then Inl (''API error: '' @ statusText response)
      else (case response_body response of
              None \<Rightarrow> Inl ''No response body''
            | Some chunks \<Rightarrow> Inr (read_loop JSON_parse assistantMessageId chunks [])))"


section \<open>Vocabulary of the properties\<close>

text \<open>The row the upload handler inserts for a new book.\<close>

definition bookData_of :: "string \<Rightarrow> string \<Rightarrow> File \<Rightarrow> string \<Rightarrow> book_row" where
  "bookData_of user bookId file hashHex =
     \<lparr> id_col = bookId,
       title_col = strip_epub_suffix (File_name file),
       file_size = length (File_arrayBuffer file),
       file_checksum = hashHex,
       uploaded_by = user,
       storage_path = ''books/'' @ user @ ''/'' @ bookId @ ''.epub'',
       file_name = File_name file,
       readium_manifest_path = None \<rparr>"

text \<open>The fingerprint of a file: the digest of its whole buffer, in hexadecimal.\<close>

definition fingerprint :: "(bytes \<Rightarrow> bytes) \<Rightarrow> File \<Rightarrow> string" where
  "fingerprint digest file = hashHex_of (digest (File_arrayBuffer file))"

text \<open>A request that passes the three checks at the entry of the upload handler: the user is
  authenticated, the entry \<open>file\<close> of the form is a file, and the file has the EPUB media type or a name ending
  in \<open>.epub\<close>.\<close>

definition accepted :: "script \<Rightarrow> request \<Rightarrow> string \<Rightarrow> File \<Rightarrow> bool" where
  "accepted sc req user file =
     (getUser_reply sc = Reply (Some user) None \<and> req = FormData (Some (FileValue file)) \<and>
      (File_type file = ''application/epub+zip'' \<or> endsWith (toLowerCase (File_name file)) ''.epub''))"

text \<open>A part of a locator that begins with a number: after leading white space and at most one
  sign comes a decimal digit.\<close>

definition starts_with_number :: "jsstring \<Rightarrow> bool" where
  "starts_with_number p =
     (case dropWhile StrWhiteSpaceChar p of
        [] \<Rightarrow> False
      | u # r \<Rightarrow> if u = 43 \<or> u = 45
                 then (case r of [] \<Rightarrow> False | d # _ \<Rightarrow> decimal_digit d)
                 else decimal_digit u)"

text \<open>A rendering of the numbers beyond \<open>2 ^ 53\<close> for the examples, none of which has such
  a number.\<close>

definition example_beyond :: "int \<Rightarrow> jsstring" where
  "example_beyond n = lit ''1e+21''"

text \<open>A lookup reply that says no row was found: no data, and no error but the code
  \<open>PGRST116\<close>.\<close>

definition not_found :: "'a reply \<Rightarrow> bool" where
  "not_found r =
     (data r = None \<and> (case error r of None \<Rightarrow> True | Some e \<Rightarrow> code e = ''PGRST116''))"

definition is_lower_hex :: "char \<Rightarrow> bool" where
  "is_lower_hex ch =
     (is_digit ch \<or> (97 \<le> (of_char ch :: nat) \<and> (of_char ch :: nat) \<le> 102))"

text \<open>The text a line of the stream adds to the assistant message, if any.\<close>

definition fragment_of :: "(string \<Rightarrow> json option) \<Rightarrow> string \<Rightarrow> string list" where
  "fragment_of JSON_parse line =
     (case process_line JSON_parse [] line of
        Continued [AppendContent _ text] \<Rightarrow> [text]
      | _ \<Rightarrow> [])"

text \<open>The complete lines of a text: those that end in a line feed.\<close>

definition complete_lines :: "string \<Rightarrow> string list" where
  "complete_lines text = butlast (split_on newline text)"



text \<open>The texts a stream adds to the assistant message: the fragments of its complete lines,
  in order, up to the terminator line.\<close>

definition stream_texts :: "(string \<Rightarrow> json option) \<Rightarrow> string \<Rightarrow> string list" where
  "stream_texts JSON_parse text =
     concat (map (fragment_of JSON_parse)
                 (takeWhile (\<lambda>l. l \<noteq> ''data: [DONE]'') (complete_lines text)))"

text \<open>A small stream for the examples: five chunks cut inside lines, with a line that is
  not an event, a payload that is not JSON, and a line after the terminator.\<close>

definition LF :: char where
  "LF = CHR 0x0A"

definition example_parse :: "string \<Rightarrow> json option" where
  \<open>example_parse =
     map_of [(''{"content":"Hel"}'', JObject [(''content'', JString ''Hel'')]),
             (''{"content":"lo"}'', JObject [(''content'', JString ''lo'')]),
             (''{"role":"assistant"}'', JObject [(''role'', JString ''assistant'')])]\<close>

definition example_chunks :: "string list" where
  \<open>example_chunks =
     [''data: {"role":"assistant"}'' @ [LF] @ ''data: {"con'',
      ''tent":"Hel"}'' @ [LF] @ [LF] @ ''da'',
      ''ta: {"content":"l'' @ [LF] @ '': ping'' @ [LF] @ ''data: {"content":"lo"}'',
      [LF] @ ''data: [DO'',
      ''NE]'' @ [LF] @ ''data: {"content":"lo"}'' @ [LF]]\<close>

definition example_pane :: pane where
  "example_pane =
     \<lparr> messages =
         [\<lparr> msg_id = ''1'', msg_role = Assistant, content = ''Hello!'', timestamp = 0,
             selectionPositionLabel_opt = None, selectionPositionTitle_opt = None \<rparr>,
          \<lparr> msg_id = ''17'', msg_role = User, content = ''Hi'', timestamp = 16,
             selectionPositionLabel_opt = None, selectionPositionTitle_opt = None \<rparr>,
          \<lparr> msg_id = ''18'', msg_role = Assistant, content = [], timestamp = 17,
             selectionPositionLabel_opt = None, selectionPositionTitle_opt = None \<rparr>],
       isLoading = True \<rparr>"



text \<open>The responses of the upload handler that report a failure.\<close>

definition error_response :: "string \<Rightarrow> api_error \<Rightarrow> response" where
  "error_response what e =
     NextResponse_json [(''error'', JString what), (''details'', JString (message e))] 500"

definition insert_failed_response :: "api_error \<Rightarrow> response" where
  "insert_failed_response e =
     NextResponse_json
       [(''error'', JString ''Failed to create book record''),
        (''details'', JString (message e)),
        (''code'', JString (code e)),
        (''hint'', JString (hint e))] 500"

text \<open>Inputs for the examples: a user, two files with the same bytes, a file that is not an
  EPUB, a script in which every call succeeds and no book is found, and an empty backend.\<close>

definition example_file :: File where
  "example_file = \<lparr> File_name = ''Moby Dick.EPUB'', File_type = [],
                    File_arrayBuffer = [80, 75, 3, 4, 255] \<rparr>"

definition example_file' :: File where
  "example_file' = \<lparr> File_name = ''whale'', File_type = ''application/epub+zip'',
                     File_arrayBuffer = [80, 75, 3, 4, 255] \<rparr>"

definition example_text_file :: File where
  "example_text_file = \<lparr> File_name = ''notes.epub.txt'', File_type = ''text/plain'',
                         File_arrayBuffer = [104, 105] \<rparr>"

definition example_digest :: "bytes \<Rightarrow> bytes" where
  "example_digest buf = replicate 31 0 @ [of_nat (length buf)]"

definition example_uuid :: "nat \<Rightarrow> string" where
  "example_uuid n = ''book-'' @ decimal n"

definition example_script :: script where
  "example_script =
     \<lparr> getUser_reply = Reply (Some ''alice'') None,
       randomUUID_reply = ''book-0'',
       existingBook_reply = Reply None (Some no_rows),
       raceConditionBook_reply = Reply None (Some no_rows),
       book_reply = Reply None (Some no_rows),
       existingLink_reply = Reply None (Some no_rows),
       linkError_reply = None,
       bookError_reply = None,
       uploadError_reply = None,
       deleteError_reply = None,
       removeError_reply = None \<rparr>"

definition example_book :: book_ref where
  "example_book = \<lparr> ref_id = ''book-7'', ref_title = ''Moby Dick'' \<rparr>"

definition fingerprint_violation :: api_error where
  "fingerprint_violation =
     \<lparr> message = ''duplicate key value violates unique constraint books_file_checksum_key'',
       details = ''Key (file_checksum) already exists.'', hint = [], code = ''23505'' \<rparr>"

definition connection_lost :: api_error where
  "connection_lost = \<lparr> message = ''connection lost'', details = [], hint = [], code = ''08006'' \<rparr>"

definition empty_backend :: backend where
  "empty_backend = \<lparr> session_user = None, books = [], user_books = [], epubs = [], uuids_used = 0 \<rparr>"



text \<open>The reading page against the reference backend, for the user of its session.\<close>

definition read_as ::
  "(bytes \<Rightarrow> bytes) \<Rightarrow> (nat \<Rightarrow> string) \<Rightarrow> string \<Rightarrow> backend \<Rightarrow> page \<times> backend" where
  "read_as digest uuid ident db = run_state (ReadBookPage (in_memory digest uuid) ident) db"



text \<open>Variants of the example script, one per path of the upload handler, and a backend
  that already holds another book.\<close>

definition example_request :: request where
  "example_request = FormData (Some (FileValue example_file))"

definition unauthenticated_script :: script where
  "unauthenticated_script = example_script \<lparr> getUser_reply := Reply None (Some no_session) \<rparr>"

definition lookup_failure_script :: script where
  "lookup_failure_script =
     example_script \<lparr> existingBook_reply := Reply None (Some connection_lost) \<rparr>"

definition duplicate_script :: script where
  "duplicate_script = example_script \<lparr> existingBook_reply := Reply (Some example_book) None \<rparr>"

definition duplicate_link_failure_script :: script where
  "duplicate_link_failure_script = duplicate_script \<lparr> linkError_reply := Some connection_lost \<rparr>"

definition race_found_script :: script where
  "race_found_script =
     example_script \<lparr> bookError_reply := Some fingerprint_violation,
                      raceConditionBook_reply := Reply (Some example_book) None \<rparr>"

definition race_found_link_failure_script :: script where
  "race_found_link_failure_script =
     race_found_script \<lparr> linkError_reply := Some connection_lost \<rparr>"

definition race_lost_script :: script where
  "race_lost_script = example_script \<lparr> bookError_reply := Some fingerprint_violation \<rparr>"

definition insert_refused_script :: script where
  "insert_refused_script = example_script \<lparr> bookError_reply := Some connection_lost \<rparr>"

definition storage_failure_script :: script where
  "storage_failure_script = example_script \<lparr> uploadError_reply := Some already_exists \<rparr>"

definition link_failure_script :: script where
  "link_failure_script = example_script \<lparr> linkError_reply := Some connection_lost \<rparr>"

definition example_entry :: book_entry where
  "example_entry = \<lparr> entry_id = ''book-0'', entry_title = ''Walden'',
                     entry_manifest_path = Some ''books_0/manifest.json'' \<rparr>"

definition reader_script :: script where
  "reader_script =
     example_script \<lparr> book_reply := Reply (Some example_entry) None,
                      existingLink_reply := Reply (Some 0) None \<rparr>"

definition example_backend :: backend where
  "example_backend =
     \<lparr> session_user = Some ''bob'',
       books = [\<lparr> id_col = ''book-0'', title_col = ''Walden'', file_size = 1,
                  file_checksum = ''ab'', uploaded_by = ''carol'',
                  storage_path = ''books/carol/book-0.epub'', file_name = ''Walden.epub'',
                  readium_manifest_path = Some ''books_0/manifest.json'' \<rparr>],
       user_books = [\<lparr> link_id = 0, user_id = ''carol'', book_id = ''book-0'' \<rparr>],
       epubs = [(''books/carol/book-0.epub'', [171])],
       uuids_used = 1 \<rparr>"

definition taken_backend :: backend where
  "taken_backend =
     example_backend \<lparr> epubs := epubs example_backend @ [(''books/alice/book-1.epub'', [9])] \<rparr>"


section \<open>Properties\<close>

subsection \<open>Decimal digits and \<open>parseInt\<close>\<close>

lemma digit_unit: "d < 10 \<Longrightarrow> decimal_digit (of_char (hex_digit d))"
  by (simp add: decimal_digit_def hex_digit_def)

lemma digit_value_unit: "d < 10 \<Longrightarrow> digit_value (of_char (hex_digit d)) = d"
  by (simp add: digit_value_def hex_digit_def)

lemma decimal_nonempty: "decimal n \<noteq> []"
  by (subst decimal.simps) simp

lemma lit_append [simp]: "lit (a @ b) = lit a @ lit b"
  by (simp add: lit_def)

lemma lit_decimal_digits: "list_all decimal_digit (lit (decimal n))"
proof (induction n rule: decimal.induct)
  case (1 n)
  show ?case
  proof (cases "n < 10")
    case True
    then show ?thesis by (subst decimal.simps) (simp add: digit_unit lit_def)
  next
    case False
    with 1 show ?thesis by (subst decimal.simps) (simp add: digit_unit lit_def)
  qed
qed

lemma digits_value_snoc: "digits_value (Z @ [u]) = 10 * digits_value Z + digit_value u"
  by (simp add: digits_value_def)

lemma digits_value_decimal: "digits_value (lit (decimal n)) = n"
proof (induction n rule: decimal.induct)
  case (1 n)
  show ?case
  proof (cases "n < 10")
    case True
    then show ?thesis
      by (subst decimal.simps) (simp add: digits_value_def digit_value_unit lit_def)
  next
    case False
    with 1 show ?thesis
      by (subst decimal.simps)
         (simp add: digits_value_snoc digit_value_unit lit_def del: lit_append)
  qed
qed

lemma digit_plain:
  "decimal_digit u \<Longrightarrow> \<not> StrWhiteSpaceChar u \<and> u \<noteq> 43 \<and> u \<noteq> 45 \<and> u \<noteq> 47 \<and> u \<noteq> 58"
  by (auto simp: decimal_digit_def StrWhiteSpaceChar_def)

lemma dropWhile_ws: "list_all StrWhiteSpaceChar ws \<Longrightarrow> \<not> StrWhiteSpaceChar u \<Longrightarrow>
  dropWhile StrWhiteSpaceChar (ws @ u # r) = u # r"
  by (induction ws) auto

lemma takeWhile_digits:
  "list_all decimal_digit ds \<Longrightarrow> rest = [] \<or> \<not> decimal_digit (hd rest) \<Longrightarrow>
   takeWhile decimal_digit (ds @ rest) = ds"
  by (induction ds) (cases rest; simp)+

lemma parseInt10_unsigned:
  assumes ws: "list_all StrWhiteSpaceChar ws" and ne: "ds \<noteq> []"
    and ds: "list_all decimal_digit ds" and rest: "rest = [] \<or> \<not> decimal_digit (hd rest)"
  shows "parseInt10 (ws @ ds @ rest) = Some (int (digits_value ds))"
proof -
  obtain d ds' where d: "ds = d # ds'" using ne by (cases ds) auto
  have dd: "decimal_digit d" using ds d by simp
  have dw: "dropWhile StrWhiteSpaceChar (ws @ ds @ rest) = ds @ rest"
    using dropWhile_ws[OF ws, of d "ds' @ rest"] digit_plain[OF dd] d by simp
  have tw: "takeWhile decimal_digit (ds @ rest) = ds" by (rule takeWhile_digits[OF ds rest])
  show ?thesis
    unfolding parseInt10_def Let_def dw
    using digit_plain[OF dd] tw ne by (simp add: d)
qed

lemma parseInt10_signed:
  assumes ws: "list_all StrWhiteSpaceChar ws" and ne: "ds \<noteq> []"
    and ds: "list_all decimal_digit ds" and rest: "rest = [] \<or> \<not> decimal_digit (hd rest)"
  shows "parseInt10 (ws @ 45 # ds @ rest) = Some (- int (digits_value ds))"
    and "parseInt10 (ws @ 43 # ds @ rest) = Some (int (digits_value ds))"
proof -
  have n45: "\<not> StrWhiteSpaceChar 45" and n43: "\<not> StrWhiteSpaceChar 43"
    by (simp_all add: StrWhiteSpaceChar_def)
  have tw: "takeWhile decimal_digit (ds @ rest) = ds" by (rule takeWhile_digits[OF ds rest])
  show "parseInt10 (ws @ 45 # ds @ rest) = Some (- int (digits_value ds))"
    unfolding parseInt10_def Let_def dropWhile_ws[OF ws n45]
    using tw ne by simp
  show "parseInt10 (ws @ 43 # ds @ rest) = Some (int (digits_value ds))"
    unfolding parseInt10_def Let_def dropWhile_ws[OF ws n43]
    using tw ne by simp
qed

lemma parseInt10_reads: "parseInt10 p \<noteq> None \<longleftrightarrow> starts_with_number p"
proof (cases "dropWhile StrWhiteSpaceChar p")
  case Nil
  show ?thesis
    unfolding parseInt10_def starts_with_number_def Let_def Nil by simp
next
  case (Cons u r)
  show ?thesis
  proof (cases "u = 43 \<or> u = 45")
    case True
    then show ?thesis
      unfolding parseInt10_def starts_with_number_def Let_def Cons
      by (cases r) auto
  next
    case False
    then show ?thesis
      unfolding parseInt10_def starts_with_number_def Let_def Cons
      by auto
  qed
qed

subsection \<open>Position labels\<close>

lemma split_on_append_sep:
  "\<forall>x \<in> set xs. \<not> sep x \<Longrightarrow> sep s \<Longrightarrow> split_on sep (xs @ s # ys) = xs # split_on sep ys"
  by (induction xs) auto

lemma split_on_no_sep: "\<forall>x \<in> set xs. \<not> sep x \<Longrightarrow> split_on sep xs = [xs]"
  by (induction xs) auto

lemma lit_decimal_no_sep: "\<forall>x \<in> set (lit (decimal n)). \<not> (x = 47 \<or> x = 58)"
  using lit_decimal_digits[of n] digit_plain by (auto simp: list_all_iff)

lemma lit_decimal_nonempty: "lit (decimal n) \<noteq> []"
  by (simp add: lit_def decimal_nonempty)

lemma parseInt10_decimal: "parseInt10 (lit (decimal n)) = Some (int n)"
  using parseInt10_unsigned[of "[]" "lit (decimal n)" "[]"]
  by (simp add: lit_decimal_digits lit_decimal_nonempty digits_value_decimal)

lemma parseThreePart_Some_iff:
  "parseThreePart pos = Some (a, b, c) \<longleftrightarrow>
     (\<exists>rest. map parseInt10 (locator_parts pos) = Some a # Some b # Some c # rest
             \<and> None \<notin> set rest)"
  unfolding parseThreePart_def Let_def
  by (auto split: list.splits option.splits)

lemma parseThreePart_None_iff:
  "parseThreePart pos = None \<longleftrightarrow>
     (length (locator_parts pos) < 3 \<or> \<not> list_all starts_with_number (locator_parts pos))"
proof -
  have eq: "None \<in> set (map parseInt10 ps) \<longleftrightarrow> \<not> list_all starts_with_number ps" for ps
    by (induction ps) (auto simp: parseInt10_reads[symmetric])
  show ?thesis
    unfolding parseThreePart_def Let_def
    using eq[of "locator_parts pos"]
    by (auto split: list.splits option.splits)
qed

lemma parseThreePart_page_locator:
  "parseThreePart (lit (decimal p) @ lit ''/'' @ lit (decimal i) @ lit ''/'' @ lit (decimal off))
   = Some (int p, int i, int off)"
proof -
  let ?sep = "\<lambda>u::nat. u = 47 \<or> u = 58"
  have sl: "lit ''/'' = [47]" by (simp add: lit_def)
  have "split_on ?sep (lit (decimal p) @ 47 # lit (decimal i) @ 47 # lit (decimal off))
        = [lit (decimal p), lit (decimal i), lit (decimal off)]"
    using lit_decimal_no_sep
    by (simp add: split_on_append_sep[where sep = ?sep] split_on_no_sep[where sep = ?sep])
  then show ?thesis
    by (simp add: parseThreePart_def locator_parts_def parseInt10_decimal sl)
qed

lemma Number_toString_safe:
  "int n \<le> 2 ^ 53 \<Longrightarrow> Number_toString beyond (int n) = lit (decimal n)"
  "int n \<le> 2 ^ 53 \<Longrightarrow> 0 < n \<Longrightarrow> Number_toString beyond (- int n) = lit ''-'' @ lit (decimal n)"
  by (simp_all add: Number_toString_def)

lemma label_parsed:
  "parseThreePart start = Some (a, b, c) \<Longrightarrow> parseThreePart end = Some (a', b', c') \<Longrightarrow>
   label (formatSelectionPositionLabel beyond start end)
     = lit ''('' @ Number_toString beyond a @ lit '':'' @ Number_toString beyond b @ lit ''-''
       @ Number_toString beyond a' @ lit '':'' @ Number_toString beyond b' @ lit '')''"
  by (simp add: formatSelectionPositionLabel_def)

lemma label_fallback:
  "parseThreePart start = None \<or> parseThreePart end = None \<Longrightarrow>
   label (formatSelectionPositionLabel beyond start end)
     = lit ''('' @ map (\<lambda>u. if u = 47 then 58 else u) start @ lit ''-''
       @ map (\<lambda>u. if u = 47 then 58 else u) end @ lit '')''"
  by (auto simp: formatSelectionPositionLabel_def compact_def split: option.splits)

lemma title_always:
  "title (formatSelectionPositionLabel beyond start end) = lit ''start='' @ start @ lit '' end='' @ end"
  by (auto simp: formatSelectionPositionLabel_def split: option.splits)

lemma split_on_nonempty: "split_on sep s \<noteq> []"
  by (induction s) (auto split: list.splits)

lemma split_on_length: "length (split_on sep s) = Suc (length (filter sep s))"
  using split_on_nonempty[of sep] by (induction s) (auto split: list.splits)

lemma split_on_concat: "concat (split_on sep s) = filter (\<lambda>x. \<not> sep x) s"
  by (induction s) (auto split: list.splits)

lemma split_on_parts: "list_all (list_all (\<lambda>x. \<not> sep x)) (split_on sep s)"
  by (induction s) (auto split: list.splits)

lemma locator_parts_props:
  "length (locator_parts pos) = Suc (length (filter (\<lambda>u. u = 47 \<or> u = 58) pos))
   \<and> list_all (list_all (\<lambda>u. \<not> (u = 47 \<or> u = 58))) (locator_parts pos)
   \<and> concat (locator_parts pos) = filter (\<lambda>u. \<not> (u = 47 \<or> u = 58)) pos"
  unfolding locator_parts_def
  using split_on_length[of "\<lambda>u. u = 47 \<or> u = 58" pos] split_on_parts[of "\<lambda>u. u = 47 \<or> u = 58" pos]
    split_on_concat[of "\<lambda>u. u = 47 \<or> u = 58" pos]
  by simp

lemmas locator_evaluation =
  parseThreePart_def locator_parts_def parseInt10_def starts_with_number_def lit_def
  StrWhiteSpaceChar_def decimal_digit_def digits_value_def digit_value_def

lemma example_parts:
  "map parseInt10 (locator_parts (lit ''3/12/100'')) = [Some 3, Some 12, Some 100]"
  "map parseInt10 (locator_parts (lit ''4/0/7'')) = [Some 4, Some 0, Some 7]"
  "locator_parts (lit ''3/12abc/100'') = [lit ''3'', lit ''12abc'', lit ''100'']"
  "map parseInt10 (locator_parts (lit ''3/12abc/100'')) = [Some 3, Some 12, Some 100]"
  "locator_parts (lit ''2/4/body[1]/p[3]/15'')
     = [lit ''2'', lit ''4'', lit ''body[1]'', lit ''p[3]'', lit ''15'']"
  "\<not> starts_with_number (lit ''body[1]'')"
  by (simp_all add: locator_evaluation)

lemma example_numbers:
  "Number_toString example_beyond 3 = lit ''3''"
  "Number_toString example_beyond 12 = lit ''12''"
  "Number_toString example_beyond 4 = lit ''4''"
  "Number_toString example_beyond 0 = lit ''0''"
  "decimal 3 = ''3''" "decimal 12 = ''12''" "decimal 4 = ''4''" "decimal 0 = ''0''"
  "decimal 100 = ''100''" "decimal 7 = ''7''"
  by code_simp+

text \<open>
  Claim C9, as the code has it. For every pair of locator strings the title is
  \<open>start=<start> end=<end>\<close>. The page-based parse splits a locator at every slash and colon
  and reads each part with \<open>parseInt\<close>. It succeeds when there are at least three parts and a
  number is read from every one of them, and then the label is \<open>(a:b-a':b')\<close>, built from the
  numbers read from the first two parts of each locator; when a locator has fewer than three
  parts, or a part from which no number is read, the label is the two raw locators with every
  slash replaced by a colon. The parts are the pieces between the separators. A number is read
  from a part exactly when, after leading white space and at most one sign, the part goes on with
  a decimal digit; the number is the value of the longest run of digits there, negated after a
  minus sign, and what follows the digits is ignored. A number up to \<open>2 ^ 53\<close> is printed in
  decimal, so a locator made of three decimal numbers joined by slashes gets the label of its
  first two. The summary query is built from the book identifier and the raw locators alone,
  whatever the label is.
\<close>

theorem formatSelectionPositionLabel_spec:
  "title (formatSelectionPositionLabel beyond start end)
     = lit ''start='' @ start @ lit '' end='' @ end
   \<and> (map parseInt10 (locator_parts start) = Some a # Some b # Some c # rest
        \<and> None \<notin> set rest
        \<and> map parseInt10 (locator_parts end) = Some a' # Some b' # Some c' # rest'
        \<and> None \<notin> set rest'
      \<longrightarrow> label (formatSelectionPositionLabel beyond start end)
            = lit ''('' @ Number_toString beyond a @ lit '':'' @ Number_toString beyond b
              @ lit ''-'' @ Number_toString beyond a' @ lit '':'' @ Number_toString beyond b'
              @ lit '')'')
   \<and> (length (locator_parts start) < 3 \<or> length (locator_parts end) < 3
        \<or> \<not> list_all starts_with_number (locator_parts start)
        \<or> \<not> list_all starts_with_number (locator_parts end)
      \<longrightarrow> label (formatSelectionPositionLabel beyond start end)
            = lit ''('' @ map (\<lambda>u. if u = 47 then 58 else u) start @ lit ''-''
              @ map (\<lambda>u. if u = 47 then 58 else u) end @ lit '')'')
   \<and> length (locator_parts pos) = Suc (length (filter (\<lambda>u. u = 47 \<or> u = 58) pos))
   \<and> list_all (list_all (\<lambda>u. \<not> (u = 47 \<or> u = 58))) (locator_parts pos)
   \<and> concat (locator_parts pos) = filter (\<lambda>u. \<not> (u = 47 \<or> u = 58)) pos
   \<and> (parseInt10 part \<noteq> None \<longleftrightarrow> starts_with_number part)
   \<and> (list_all StrWhiteSpaceChar ws \<and> ds \<noteq> [] \<and> list_all decimal_digit ds
        \<and> (tail = [] \<or> \<not> decimal_digit (hd tail))
      \<longrightarrow> parseInt10 (ws @ ds @ tail) = Some (int (digits_value ds))
          \<and> parseInt10 (ws @ 43 # ds @ tail) = Some (int (digits_value ds))
          \<and> parseInt10 (ws @ 45 # ds @ tail) = Some (- int (digits_value ds)))
   \<and> digits_value (lit (decimal n)) = n
   \<and> (int n \<le> 2 ^ 53
      \<longrightarrow> Number_toString beyond (int n) = lit (decimal n)
          \<and> (0 < n \<longrightarrow> Number_toString beyond (- int n) = lit ''-'' @ lit (decimal n)))
   \<and> (int p \<le> 2 ^ 53 \<and> int i \<le> 2 ^ 53 \<and> int p' \<le> 2 ^ 53 \<and> int i' \<le> 2 ^ 53
      \<longrightarrow> label (formatSelectionPositionLabel beyond
                    (lit (decimal p) @ lit ''/'' @ lit (decimal i) @ lit ''/'' @ lit (decimal off))
                    (lit (decimal p') @ lit ''/'' @ lit (decimal i') @ lit ''/'' @ lit (decimal off')))
            = lit ''('' @ lit (decimal p) @ lit '':'' @ lit (decimal i) @ lit ''-''
              @ lit (decimal p') @ lit '':'' @ lit (decimal i') @ lit '')'')
   \<and> summaries_query
        (explain_selection_context beyond bookId isPdf \<lparr> pos_start = start, pos_end = end \<rparr>)
       = (if isPdf then QueryPdfSummaries bookId start end else QuerySummaries bookId start end)"
proof -
  have c1: "title (formatSelectionPositionLabel beyond start end)
     = lit ''start='' @ start @ lit '' end='' @ end"
    by (rule title_always)
  have c2: "(map parseInt10 (locator_parts start) = Some a # Some b # Some c # rest
        \<and> None \<notin> set rest
        \<and> map parseInt10 (locator_parts end) = Some a' # Some b' # Some c' # rest'
        \<and> None \<notin> set rest'
      \<longrightarrow> label (formatSelectionPositionLabel beyond start end)
            = lit ''('' @ Number_toString beyond a @ lit '':'' @ Number_toString beyond b
              @ lit ''-'' @ Number_toString beyond a' @ lit '':'' @ Number_toString beyond b'
              @ lit '')'')"
    by (auto simp: parseThreePart_Some_iff intro!: label_parsed)
  have c3: "(length (locator_parts start) < 3 \<or> length (locator_parts end) < 3
        \<or> \<not> list_all starts_with_number (locator_parts start)
        \<or> \<not> list_all starts_with_number (locator_parts end)
      \<longrightarrow> label (formatSelectionPositionLabel beyond start end)
            = lit ''('' @ map (\<lambda>u. if u = 47 then 58 else u) start @ lit ''-''
              @ map (\<lambda>u. if u = 47 then 58 else u) end @ lit '')'')"
  proof (intro impI)
    assume "length (locator_parts start) < 3 \<or> length (locator_parts end) < 3
        \<or> \<not> list_all starts_with_number (locator_parts start)
        \<or> \<not> list_all starts_with_number (locator_parts end)"
    then have "parseThreePart start = None \<or> parseThreePart end = None"
      unfolding parseThreePart_None_iff by blast
    then show "label (formatSelectionPositionLabel beyond start end)
            = lit ''('' @ map (\<lambda>u. if u = 47 then 58 else u) start @ lit ''-''
              @ map (\<lambda>u. if u = 47 then 58 else u) end @ lit '')''"
      by (rule label_fallback)
  qed
  have c3a: "length (locator_parts pos) = Suc (length (filter (\<lambda>u. u = 47 \<or> u = 58) pos))"
    using locator_parts_props[of pos] by blast
  have c3b: "list_all (list_all (\<lambda>u. \<not> (u = 47 \<or> u = 58))) (locator_parts pos)"
    using locator_parts_props[of pos] by blast
  have c3c: "concat (locator_parts pos) = filter (\<lambda>u. \<not> (u = 47 \<or> u = 58)) pos"
    using locator_parts_props[of pos] by blast
  have c4: "(parseInt10 part \<noteq> None \<longleftrightarrow> starts_with_number part)"
    by (rule parseInt10_reads)
  have c5: "(list_all StrWhiteSpaceChar ws \<and> ds \<noteq> [] \<and> list_all decimal_digit ds
        \<and> (tail = [] \<or> \<not> decimal_digit (hd tail))
      \<longrightarrow> parseInt10 (ws @ ds @ tail) = Some (int (digits_value ds))
          \<and> parseInt10 (ws @ 43 # ds @ tail) = Some (int (digits_value ds))
          \<and> parseInt10 (ws @ 45 # ds @ tail) = Some (- int (digits_value ds)))"
    using parseInt10_unsigned[of ws ds tail] parseInt10_signed[of ws ds tail] by blast
  have c6: "digits_value (lit (decimal n)) = n"
    by (rule digits_value_decimal)
  have c7: "(int n \<le> 2 ^ 53
      \<longrightarrow> Number_toString beyond (int n) = lit (decimal n)
          \<and> (0 < n \<longrightarrow> Number_toString beyond (- int n) = lit ''-'' @ lit (decimal n)))"
    by (simp add: Number_toString_safe)
  have c8: "(int p \<le> 2 ^ 53 \<and> int i \<le> 2 ^ 53 \<and> int p' \<le> 2 ^ 53 \<and> int i' \<le> 2 ^ 53
      \<longrightarrow> label (formatSelectionPositionLabel beyond
                    (lit (decimal p) @ lit ''/'' @ lit (decimal i) @ lit ''/'' @ lit (decimal off))
                    (lit (decimal p') @ lit ''/'' @ lit (decimal i') @ lit ''/'' @ lit (decimal off')))
            = lit ''('' @ lit (decimal p) @ lit '':'' @ lit (decimal i) @ lit ''-''
              @ lit (decimal p') @ lit '':'' @ lit (decimal i') @ lit '')'')"
    by (simp add: label_parsed[OF parseThreePart_page_locator parseThreePart_page_locator] Number_toString_safe)
  have c9: "summaries_query
        (explain_selection_context beyond bookId isPdf \<lparr> pos_start = start, pos_end = end \<rparr>)
       = (if isPdf then QueryPdfSummaries bookId start end else QuerySummaries bookId start end)"
    by (simp add: explain_selection_context_def Let_def)
  from c1 c2 c3 c3a c3b c3c c4 c5 c6 c7 c8 c9 show ?thesis
    by (intro conjI)
qed

text \<open>
  Instances of claim C9: two page locators, a locator with a path in it, and a part with
  white space, a sign and trailing letters.
\<close>

theorem formatSelectionPositionLabel_spec_witness:
  "map parseInt10 (locator_parts (lit ''3/12/100'')) = [Some 3, Some 12, Some 100]
   \<and> map parseInt10 (locator_parts (lit ''4/0/7'')) = [Some 4, Some 0, Some 7]
   \<and> label (formatSelectionPositionLabel example_beyond (lit ''3/12/100'') (lit ''4/0/7''))
       = lit ''(3:12-4:0)''
   \<and> title (formatSelectionPositionLabel example_beyond (lit ''3/12/100'') (lit ''4/0/7''))
       = lit ''start=3/12/100 end=4/0/7''
   \<and> \<not> list_all starts_with_number (locator_parts (lit ''2/4/body[1]/p[3]/15''))
   \<and> label (formatSelectionPositionLabel example_beyond (lit ''2/4/body[1]/p[3]/15'') (lit ''4/0/7''))
       = lit ''(2:4:body[1]:p[3]:15-4:0:7)''
   \<and> list_all StrWhiteSpaceChar (lit '' '') \<and> lit ''12'' \<noteq> []
   \<and> list_all decimal_digit (lit ''12'')
   \<and> \<not> decimal_digit (hd (lit ''abc''))
   \<and> parseInt10 (lit '' 12abc'') = Some 12
   \<and> parseInt10 (lit '' +12abc'') = Some 12
   \<and> parseInt10 (lit '' -12abc'') = Some (- 12)
   \<and> int 12 \<le> 2 ^ 53 \<and> (0 :: nat) < 12
   \<and> Number_toString example_beyond (- 12) = lit ''-12''"
proof -
  have ws: "list_all StrWhiteSpaceChar (lit '' '')" by (simp add: locator_evaluation)
  have ds: "list_all decimal_digit (lit ''12'')" by (simp add: locator_evaluation)
  have tl: "\<not> decimal_digit (hd (lit ''abc''))" by (simp add: locator_evaluation)
  have dv: "digits_value (lit ''12'') = 12" by (simp add: locator_evaluation)
  have nb: "\<not> list_all starts_with_number (locator_parts (lit ''2/4/body[1]/p[3]/15''))"
    by (simp add: example_parts)
  have strs: "lit '' '' @ lit ''12'' @ lit ''abc'' = lit '' 12abc''"
    "lit '' '' @ 43 # lit ''12'' @ lit ''abc'' = lit '' +12abc''"
    "lit '' '' @ 45 # lit ''12'' @ lit ''abc'' = lit '' -12abc''"
    "lit ''('' @ lit ''3'' @ lit '':'' @ lit ''12'' @ lit ''-'' @ lit ''4'' @ lit '':'' @ lit ''0'' @ lit '')''
       = lit ''(3:12-4:0)''"
    "lit ''start='' @ lit ''3/12/100'' @ lit '' end='' @ lit ''4/0/7'' = lit ''start=3/12/100 end=4/0/7''"
    "lit ''('' @ map (\<lambda>u. if u = 47 then 58 else u) (lit ''2/4/body[1]/p[3]/15'') @ lit ''-''
       @ map (\<lambda>u. if u = 47 then 58 else u) (lit ''4/0/7'') @ lit '')''
       = lit ''(2:4:body[1]:p[3]:15-4:0:7)''"
    "lit ''-'' @ lit ''12'' = lit ''-12''"
    by (simp_all add: lit_def)
  have ne: "lit ''12'' \<noteq> []" by (simp add: lit_def)
  have le: "int 12 \<le> 2 ^ 53" "(0 :: nat) < 12" by simp_all
  note a = formatSelectionPositionLabel_spec
      [of example_beyond "lit ''3/12/100''" "lit ''4/0/7''" 3 12 100 "[]" 4 0 7 "[]"
          "lit ''3/12/100''" "lit '' 12abc''" "lit '' ''" "lit ''12''" "lit ''abc''" 12 3 12 4 0 100 7
          "''b''" True]
  note b = formatSelectionPositionLabel_spec
      [of example_beyond "lit ''2/4/body[1]/p[3]/15''" "lit ''4/0/7''" 0 0 0 "[]" 0 0 0 "[]"
          "lit ''4/0/7''" "lit ''x''" "[]" "lit ''1''" "[]" 0 0 0 0 0 0 0 "''b''" False]
  from a have a1: "label (formatSelectionPositionLabel example_beyond (lit ''3/12/100'') (lit ''4/0/7''))
       = lit ''(3:12-4:0)''"
    by (simp add: example_parts example_numbers strs)
  from a have a2: "title (formatSelectionPositionLabel example_beyond (lit ''3/12/100'') (lit ''4/0/7''))
       = lit ''start=3/12/100 end=4/0/7''"
    by (simp add: strs)
  from b nb have b1:
    "label (formatSelectionPositionLabel example_beyond (lit ''2/4/body[1]/p[3]/15'') (lit ''4/0/7''))
       = lit ''(2:4:body[1]:p[3]:15-4:0:7)''"
    by (simp add: strs)
  from a ws ne ds tl have a3: "parseInt10 (lit '' 12abc'') = Some 12
     \<and> parseInt10 (lit '' +12abc'') = Some 12 \<and> parseInt10 (lit '' -12abc'') = Some (- 12)"
    by (simp add: strs dv)
  from a le have a4: "Number_toString example_beyond (- 12) = lit ''-12''"
    by (simp add: example_numbers strs)
  from a1 a2 b1 a3[THEN conjunct1] a3[THEN conjunct2, THEN conjunct1]
    a3[THEN conjunct2, THEN conjunct2] a4 ws ne ds tl le nb example_parts(1,2) show ?thesis
    by (intro conjI)
qed

text \<open>
  Claim C9 as stated fails: the parse does not require numeric components. The second part of
  \<open>3/12abc/100\<close> is not a number, and still the label is \<open>(3:12-4:0)\<close> and not the compact
  rendering \<open>(3:12abc:100-4:0:7)\<close>.
\<close>

theorem lenient_parse_counterexample:
  "locator_parts (lit ''3/12abc/100'') = [lit ''3'', lit ''12abc'', lit ''100'']
   \<and> \<not> list_all decimal_digit (lit ''12abc'')
   \<and> label (formatSelectionPositionLabel example_beyond (lit ''3/12abc/100'') (lit ''4/0/7''))
       = lit ''(3:12-4:0)''
   \<and> label (formatSelectionPositionLabel example_beyond (lit ''3/12abc/100'') (lit ''4/0/7''))
       \<noteq> lit ''(3:12abc:100-4:0:7)''
   \<and> compact (lit ''3/12abc/100'') = lit ''3:12abc:100''"
  by (simp add: formatSelectionPositionLabel_def compact_def locator_evaluation example_numbers)


subsection \<open>The streaming handler\<close>


lemma split_on_append:
  "split_on sep (x @ y) = butlast (split_on sep x) @ split_on sep (last (split_on sep x) @ y)"
proof (induction x)
  case Nil
  then show ?case by simp
next
  case (Cons c cs)
  obtain l ls where sp: "split_on sep cs = l # ls"
    using split_on_nonempty[of sep cs] by (cases "split_on sep cs") auto
  show ?case
  proof (cases "sep c")
    case True
    then show ?thesis using Cons sp by simp
  next
    case False
    show ?thesis
    proof (cases ls)
      case Nil
      then show ?thesis using Cons sp False by simp
    next
      case (Cons l' ls')
      then show ?thesis using Cons.IH sp False by simp
    qed
  qed
qed

lemma split_on_parts_clean: "\<forall>l \<in> set (split_on sep x). \<forall>ch \<in> set l. \<not> sep ch"
proof (induction x)
  case Nil
  then show ?case by simp
next
  case (Cons c cs)
  obtain k ks where sp: "split_on sep cs = k # ks"
    using split_on_nonempty[of sep cs] by (cases "split_on sep cs") auto
  show ?case
  proof (cases "sep c")
    case True
    with Cons show ?thesis by simp
  next
    case False
    with Cons sp show ?thesis by simp
  qed
qed

lemma complete_lines_append:
  "complete_lines (x @ y)
   = complete_lines x @ complete_lines (last (split_on newline x) @ y)"
  unfolding complete_lines_def
  by (subst split_on_append) (simp add: butlast_append split_on_nonempty)

lemma last_split_clean: "\<forall>ch \<in> set (last (split_on sep x)). \<not> sep ch"
  using split_on_parts_clean[of sep x] split_on_nonempty[of sep x] last_in_set
  by blast

lemma complete_lines_clean: "\<forall>ch \<in> set b. \<not> newline ch \<Longrightarrow> complete_lines b = []"
  by (simp add: complete_lines_def split_on_no_sep)


lemma startsWith_data: "startsWith line ''data: '' = (take 6 line = ''data: '')"
proof -
  have l: "length ''data: '' = 6" by simp
  show ?thesis unfolding startsWith_def l ..
qed

lemma done_line_iff:
  "startsWith line ''data: '' \<and> drop 6 line = ''[DONE]'' \<longleftrightarrow> line = ''data: [DONE]''"
proof
  assume a: "startsWith line ''data: '' \<and> drop 6 line = ''[DONE]''"
  have "line = take 6 line @ drop 6 line" by simp
  also have "\<dots> = ''data: '' @ ''[DONE]''" using a by (simp add: startsWith_data)
  finally show "line = ''data: [DONE]''" by simp
next
  assume "line = ''data: [DONE]''"
  then show "startsWith line ''data: '' \<and> drop 6 line = ''[DONE]''"
    by (simp add: startsWith_def)
qed

lemma process_line_cases:
  "process_line p i line =
     (if line = ''data: [DONE]'' then Returned [SetIsLoading False]
      else Continued (map (AppendContent i) (fragment_of p line)))"
proof (cases "line = ''data: [DONE]''")
  case True
  then show ?thesis by (simp add: process_line_def startsWith_def)
next
  case False
  then have nd: "\<not> (startsWith line ''data: '' \<and> drop 6 line = ''[DONE]'')"
    using done_line_iff by blast
  show ?thesis
  proof (cases "startsWith line ''data: ''")
    case True
    with nd have "drop 6 line \<noteq> ''[DONE]''" by blast
    with True False show ?thesis
      by (simp add: process_line_def fragment_of_def Let_def split: option.splits)
  next
    case False
    then show ?thesis using \<open>line \<noteq> ''data: [DONE]''\<close>
      by (simp add: process_line_def fragment_of_def)
  qed
qed

lemma process_lines_cases:
  "process_lines p i ls =
     (if ''data: [DONE]'' \<in> set ls
      then (True, map (AppendContent i)
                    (concat (map (fragment_of p) (takeWhile (\<lambda>l. l \<noteq> ''data: [DONE]'') ls)))
                  @ [SetIsLoading False])
      else (False, map (AppendContent i) (concat (map (fragment_of p) ls))))"
  by (induction ls) (simp_all add: process_line_cases)

lemma read_loop_text:
  "\<forall>ch \<in> set buffer. \<not> newline ch \<Longrightarrow>
   read_loop p i chunks buffer =
     map (AppendContent i)
       (concat (map (fragment_of p)
          (takeWhile (\<lambda>l. l \<noteq> ''data: [DONE]'') (complete_lines (buffer @ concat chunks)))))
     @ [SetIsLoading False]"
proof (induction chunks arbitrary: buffer)
  case Nil
  then show ?case by (simp add: complete_lines_clean)
next
  case (Cons chunk chunks)
  let ?lines = "split_on newline (buffer @ chunk)"
  have ne: "?lines \<noteq> []" by (rule split_on_nonempty)
  have clean: "\<forall>ch \<in> set (last ?lines). \<not> newline ch" by (rule last_split_clean)
  have cl: "complete_lines (buffer @ concat (chunk # chunks))
            = butlast ?lines @ complete_lines (last ?lines @ concat chunks)"
    using complete_lines_append[of "buffer @ chunk" "concat chunks"]
    by (simp add: complete_lines_def)
  show ?case
  proof (cases "''data: [DONE]'' \<in> set (butlast ?lines)")
    case True
    then show ?thesis
      unfolding cl by (simp add: Let_def process_lines_cases ne takeWhile_append1
          del: read_loop.simps(1))
  next
    case False
    then have tw: "takeWhile (\<lambda>l. l \<noteq> ''data: [DONE]'') (butlast ?lines @ rest)
                   = butlast ?lines @ takeWhile (\<lambda>l. l \<noteq> ''data: [DONE]'') rest" for rest
      by (auto intro!: takeWhile_append2)
    show ?thesis
      unfolding cl tw using False Cons.IH[OF clean]
      by (simp add: Let_def process_lines_cases ne)
  qed
qed

lemma foldl_append_content:
  "foldl apply_setter pn (map (AppendContent i) texts)
   = pn \<lparr> messages := map (\<lambda>m. if msg_id m = i then m \<lparr> content := content m @ concat texts \<rparr> else m)
                          (messages pn) \<rparr>"
proof (induction texts arbitrary: pn)
  case Nil
  show ?case by (simp cong: if_cong)
next
  case (Cons t texts)
  show ?case by (simp add: Cons.IH comp_def cong: if_cong)
qed


lemma fragment_not_data: "\<not> startsWith line ''data: '' \<Longrightarrow> fragment_of p line = []"
  by (simp add: fragment_of_def process_line_def)

lemma startsWith_prefix: "startsWith (pre @ rest) pre"
  by (simp add: startsWith_def)

lemma fragment_unparsed:
  "payload \<noteq> ''[DONE]'' \<Longrightarrow> p payload = None \<Longrightarrow> fragment_of p (''data: '' @ payload) = []"
  using startsWith_prefix[of "''data: ''" payload]
  by (simp add: fragment_of_def process_line_def Let_def)

lemma fragment_content:
  "payload \<noteq> ''[DONE]'' \<Longrightarrow> p payload = Some (JObject props) \<Longrightarrow>
   map_of (rev props) ''content'' = Some (JString text) \<Longrightarrow>
   concat (fragment_of p (''data: '' @ payload)) = text"
  using startsWith_prefix[of "''data: ''" payload]
  by (simp add: fragment_of_def process_line_def parsed_content_def Let_def)

text \<open>
  Claim C7. For a response that is \<open>ok\<close> and has a body, however the body is cut into chunks,
  the handler appends to the assistant message the fragments of the complete \<open>data: \<close> lines
  of the whole text, in order, up to the first \<open>data: [DONE]\<close> line, and then ends the loading
  state, once. A line that is not a \<open>data: \<close> line and a payload that does not parse add
  nothing; a payload that parses to an object with a string \<open>content\<close> adds that string.
\<close>

theorem streaming_reconstruction:
  "handleStreamingResponse p \<lparr> ok = True, statusText = st, response_body = Some chunks \<rparr> i
     = Inr (map (AppendContent i) (stream_texts p (concat chunks)) @ [SetIsLoading False])
   \<and> foldl apply_setter pn
        (map (AppendContent i) (stream_texts p (concat chunks)) @ [SetIsLoading False])
     = pn \<lparr> messages :=
              map (\<lambda>m. if msg_id m = i
                        then m \<lparr> content := content m @ concat (stream_texts p (concat chunks)) \<rparr>
                        else m) (messages pn),
            isLoading := False \<rparr>
   \<and> length (filter (\<lambda>c. c = SetIsLoading False)
        (map (AppendContent i) (stream_texts p (concat chunks)) @ [SetIsLoading False])) = 1
   \<and> (\<not> startsWith line ''data: '' \<longrightarrow> fragment_of p line = [])
   \<and> (payload \<noteq> ''[DONE]'' \<and> p payload = None \<longrightarrow> fragment_of p (''data: '' @ payload) = [])
   \<and> (payload \<noteq> ''[DONE]'' \<and> p payload = Some (JObject props)
        \<and> map_of (rev props) ''content'' = Some (JString text)
      \<longrightarrow> concat (fragment_of p (''data: '' @ payload)) = text)"
proof -
  have "read_loop p i chunks []
        = map (AppendContent i) (stream_texts p (concat chunks)) @ [SetIsLoading False]"
    using read_loop_text[of "[]" p i chunks] by (simp add: stream_texts_def)
  then have one: "handleStreamingResponse p \<lparr> ok = True, statusText = st, response_body = Some chunks \<rparr> i
     = Inr (map (AppendContent i) (stream_texts p (concat chunks)) @ [SetIsLoading False])"
    by (simp add: handleStreamingResponse_def)
  have two: "foldl apply_setter pn
        (map (AppendContent i) (stream_texts p (concat chunks)) @ [SetIsLoading False])
     = pn \<lparr> messages :=
              map (\<lambda>m. if msg_id m = i
                        then m \<lparr> content := content m @ concat (stream_texts p (concat chunks)) \<rparr>
                        else m) (messages pn),
            isLoading := False \<rparr>"
    by (simp add: foldl_append_content)
  have three: "length (filter (\<lambda>c. c = SetIsLoading False)
        (map (AppendContent i) (stream_texts p (concat chunks)) @ [SetIsLoading False])) = 1"
    by (simp add: filter_map comp_def)
  show ?thesis
    using one two three fragment_not_data fragment_unparsed fragment_content by blast
qed




lemma example_texts: "stream_texts example_parse (concat example_chunks) = [''Hel'', ''lo'']"
  by code_simp

theorem streaming_reconstruction_witness:
  \<open>handleStreamingResponse example_parse
      \<lparr> ok = True, statusText = ''OK'', response_body = Some example_chunks \<rparr> ''18''
     = Inr [AppendContent ''18'' ''Hel'', AppendContent ''18'' ''lo'', SetIsLoading False]
   \<and> map content (messages (foldl apply_setter example_pane
         [AppendContent ''18'' ''Hel'', AppendContent ''18'' ''lo'', SetIsLoading False]))
       = [''Hello!'', ''Hi'', ''Hello'']
   \<and> \<not> startsWith '': ping'' ''data: '' \<and> fragment_of example_parse '': ping'' = []
   \<and> ''{"content":"l'' \<noteq> ''[DONE]'' \<and> example_parse ''{"content":"l'' = None
   \<and> fragment_of example_parse (''data: '' @ ''{"content":"l'') = []
   \<and> ''{"content":"lo"}'' \<noteq> ''[DONE]''
   \<and> example_parse ''{"content":"lo"}'' = Some (JObject [(''content'', JString ''lo'')])
   \<and> map_of (rev [(''content'', JString ''lo'')]) ''content'' = Some (JString ''lo'')
   \<and> concat (fragment_of example_parse (''data: '' @ ''{"content":"lo"}'')) = ''lo''\<close>
proof -
  have p1: \<open>example_parse ''{"content":"l'' = None\<close>
    by (simp add: example_parse_def)
  have p2: \<open>example_parse ''{"content":"lo"}'' = Some (JObject [(''content'', JString ''lo'')])\<close>
    by (simp add: example_parse_def)
  have sw: "\<not> startsWith '': ping'' ''data: ''"
    by (simp add: startsWith_def)
  from streaming_reconstruction
         [of example_parse "''OK''" example_chunks "''18''" example_pane "'': ping''"
             \<open>''{"content":"l''\<close> "[]" "[]"]
       streaming_reconstruction
         [of example_parse "''OK''" example_chunks "''18''" example_pane "'': ping''"
             \<open>''{"content":"lo"}''\<close> "[(''content'', JString ''lo'')]" "''lo''"]
       p1 p2 sw example_texts
  show ?thesis by (simp add: example_pane_def)
qed



subsection \<open>The upload handler against the scripted backend\<close>


lemma run_answer [simp]: "run_state (answer r c) log = (r, log @ [c])"
  by (simp add: answer_def)

lemma scripted_simps [simp]:
  "auth_getUser (scripted digest sc) = answer (getUser_reply sc) GetUser"
  "books_select_by_id (scripted digest sc) i = answer (book_reply sc) (SelectBookById i)"
  "books_insert (scripted digest sc) row = answer (bookError_reply sc) (InsertBook row)"
  "books_delete_by_id (scripted digest sc) i = answer (deleteError_reply sc) (DeleteBook i)"
  "user_books_select (scripted digest sc) u b = answer (existingLink_reply sc) (SelectUserBook u b)"
  "user_books_insert (scripted digest sc) u b = answer (linkError_reply sc) (InsertUserBook u b)"
  "storage_upload (scripted digest sc) path buf = answer (uploadError_reply sc) (StorageUpload path buf)"
  "storage_remove (scripted digest sc) paths = answer (removeError_reply sc) (StorageRemove paths)"
  "crypto_digest (scripted digest sc) = digest"
  "crypto_randomUUID (scripted digest sc) = answer (randomUUID_reply sc) RandomUUID"
  "run_state (books_select_by_checksum (scripted digest sc) h) log =
     (if filter is_checksum_lookup log = [] then existingBook_reply sc else raceConditionBook_reply sc,
      log @ [SelectBookByChecksum h])"
  by (simp_all add: scripted_def)

lemma run_POST_duplicate:
  "run_state (POST_duplicate (scripted digest sc) user b) log =
     (case data (existingLink_reply sc) of
        Some _ \<Rightarrow> (duplicate_response (ref_id b), log @ [SelectUserBook user (ref_id b)])
      | None \<Rightarrow>
          (case linkError_reply sc of
             None \<Rightarrow> duplicate_response (ref_id b)
           | Some e \<Rightarrow> error_response ''Failed to link book to user'' e,
           log @ [SelectUserBook user (ref_id b), InsertUserBook user (ref_id b)]))"
  by (simp add: POST_duplicate_def error_response_def split: option.splits)

lemma run_POST_new_book:
  "run_state (POST_new_book (scripted digest sc) user file h) log =
     (let bookId = randomUUID_reply sc;
          path = ''books/'' @ user @ ''/'' @ bookId @ ''.epub'';
          row = bookData_of user bookId file h;
          log1 = log @ [RandomUUID, InsertBook row];
          recheck = (if filter is_checksum_lookup log = [] then existingBook_reply sc
                     else raceConditionBook_reply sc)
      in case bookError_reply sc of
           Some e \<Rightarrow>
             (if code e = ''23505'' then
                (case data recheck of
                   Some rb \<Rightarrow>
                     (duplicate_response (ref_id rb),
                      log1 @ [SelectBookByChecksum h, SelectUserBook user (ref_id rb)] @
                        (case data (existingLink_reply sc) of
                           None \<Rightarrow> [InsertUserBook user (ref_id rb)]
                         | Some _ \<Rightarrow> []))
                 | None \<Rightarrow> (insert_failed_response e, log1 @ [SelectBookByChecksum h]))
              else (insert_failed_response e, log1))
         | None \<Rightarrow>
             (case uploadError_reply sc of
                Some e \<Rightarrow>
                  (error_response ''Failed to upload file to storage'' e,
                   log1 @ [StorageUpload path (File_arrayBuffer file), DeleteBook bookId])
              | None \<Rightarrow>
                  (case linkError_reply sc of
                     Some e \<Rightarrow>
                       (error_response ''Failed to link book to user'' e,
                        log1 @ [StorageUpload path (File_arrayBuffer file),
                                InsertUserBook user bookId, DeleteBook bookId,
                                StorageRemove [path]])
                   | None \<Rightarrow>
                       (NextResponse_json
                          [(''book_id'', JString bookId),
                           (''message'', JString ''Book uploaded successfully'')] 200,
                        log1 @ [StorageUpload path (File_arrayBuffer file),
                                InsertUserBook user bookId]))))"
  by (simp add: POST_new_book_def bookData_of_def Let_def error_response_def
      insert_failed_response_def split: option.splits)

lemma upload_accepted:
  "accepted sc req user file \<Longrightarrow>
   upload digest sc req =
     (let h = fingerprint digest file;
          log = [GetUser, SelectBookByChecksum h];
          proceed = (case data (existingBook_reply sc) of
                       Some b \<Rightarrow> run_state (POST_duplicate (scripted digest sc) user b) log
                     | None \<Rightarrow> run_state (POST_new_book (scripted digest sc) user file h) log)
      in case error (existingBook_reply sc) of
           Some e \<Rightarrow> if code e \<noteq> ''PGRST116'' then (error_response ''Database error'' e, log)
                     else proceed
         | None \<Rightarrow> proceed)"
  by (auto simp: accepted_def upload_def POST_def fingerprint_def Let_def error_response_def
      split: option.splits)


lemma upload_unauthorized:
  "error (getUser_reply sc) \<noteq> None \<or> data (getUser_reply sc) = None \<Longrightarrow>
   upload digest sc req = (NextResponse_json [(''error'', JString ''Unauthorized'')] 401, [GetUser])"
  by (auto simp: upload_def POST_def split: option.splits)

lemma upload_no_file:
  "getUser_reply sc = Reply (Some user) None \<Longrightarrow> req = FormData None \<Longrightarrow>
   upload digest sc req
     = (NextResponse_json [(''error'', JString ''No file provided'')] 400, [GetUser])"
  by (simp add: upload_def POST_def)

lemma upload_invalid_type:
  "getUser_reply sc = Reply (Some user) None \<Longrightarrow> req = FormData (Some (FileValue file)) \<Longrightarrow>
   File_type file \<noteq> ''application/epub+zip'' \<Longrightarrow>
   \<not> endsWith (toLowerCase (File_name file)) ''.epub'' \<Longrightarrow>
   upload digest sc req
     = (NextResponse_json [(''error'', JString ''Invalid file type. Expected EPUB file.'')] 400,
        [GetUser])"
  by (simp add: upload_def POST_def)

lemma upload_accepted_prefix:
  "accepted sc req user file \<Longrightarrow>
   take 2 (snd (upload digest sc req)) = [GetUser, SelectBookByChecksum (fingerprint digest file)]"
  by (simp add: upload_accepted run_POST_duplicate run_POST_new_book Let_def
      split: option.splits)

lemma upload_accepted_status:
  "accepted sc req user file \<Longrightarrow>
   status (fst (upload digest sc req)) = 200 \<or> status (fst (upload digest sc req)) = 500"
  by (simp add: upload_accepted run_POST_duplicate run_POST_new_book Let_def
      error_response_def insert_failed_response_def duplicate_response_def NextResponse_json_def
      split: option.splits)

lemma upload_as_invalid_type:
  "File_type file \<noteq> ''application/epub+zip'' \<Longrightarrow>
   \<not> endsWith (toLowerCase (File_name file)) ''.epub'' \<Longrightarrow>
   upload_as digest uuid u file db
     = (NextResponse_json [(''error'', JString ''Invalid file type. Expected EPUB file.'')] 400,
        db \<lparr> session_user := Some u \<rparr>)"
  by (simp add: upload_as_def POST_def in_memory_def)

text \<open>
  The checks at the entry of the handler, for a form whose entry \<open>file\<close> is a file or is
  missing. Whatever the services answer: a request without an authenticated user gets 401; an
  authenticated request without an entry gets 400; a file whose media type is not the EPUB type
  and whose name does not end in \<open>.epub\<close> (in any case) gets 400, the authentication being
  the only call made, and the reference backend keeps its tables and its bucket as they were;
  a file with the EPUB media type or such a name passes, that is, the handler goes on to the
  lookup by fingerprint and answers 200 or 500.
\<close>

theorem upload_validation:
  "(error (getUser_reply sc) \<noteq> None \<or> data (getUser_reply sc) = None \<longrightarrow>
      upload digest sc req
        = (NextResponse_json [(''error'', JString ''Unauthorized'')] 401, [GetUser]))
   \<and> (getUser_reply sc = Reply (Some user) None \<and> req = FormData None \<longrightarrow>
      upload digest sc req
        = (NextResponse_json [(''error'', JString ''No file provided'')] 400, [GetUser]))
   \<and> (getUser_reply sc = Reply (Some user) None \<and> req = FormData (Some (FileValue file))
        \<and> File_type file \<noteq> ''application/epub+zip''
        \<and> \<not> endsWith (toLowerCase (File_name file)) ''.epub'' \<longrightarrow>
      upload digest sc req
        = (NextResponse_json [(''error'', JString ''Invalid file type. Expected EPUB file.'')] 400,
           [GetUser])
      \<and> upload_as digest uuid user file db
        = (NextResponse_json [(''error'', JString ''Invalid file type. Expected EPUB file.'')] 400,
           db \<lparr> session_user := Some user \<rparr>))
   \<and> (getUser_reply sc = Reply (Some user) None \<and> req = FormData (Some (FileValue file))
        \<and> (File_type file = ''application/epub+zip''
             \<or> endsWith (toLowerCase (File_name file)) ''.epub'') \<longrightarrow>
      take 2 (snd (upload digest sc req))
        = [GetUser, SelectBookByChecksum (fingerprint digest file)]
      \<and> (status (fst (upload digest sc req)) = 200 \<or> status (fst (upload digest sc req)) = 500))"
proof -
  have a: "error (getUser_reply sc) \<noteq> None \<or> data (getUser_reply sc) = None \<longrightarrow>
      upload digest sc req
        = (NextResponse_json [(''error'', JString ''Unauthorized'')] 401, [GetUser])"
    using upload_unauthorized[of sc digest req] by simp
  have b: "getUser_reply sc = Reply (Some user) None \<and> req = FormData None \<longrightarrow>
      upload digest sc req
        = (NextResponse_json [(''error'', JString ''No file provided'')] 400, [GetUser])"
    using upload_no_file[of sc user req digest] by simp
  have c: "getUser_reply sc = Reply (Some user) None \<and> req = FormData (Some (FileValue file))
        \<and> File_type file \<noteq> ''application/epub+zip''
        \<and> \<not> endsWith (toLowerCase (File_name file)) ''.epub'' \<longrightarrow>
      upload digest sc req
        = (NextResponse_json [(''error'', JString ''Invalid file type. Expected EPUB file.'')] 400,
           [GetUser])
      \<and> upload_as digest uuid user file db
        = (NextResponse_json [(''error'', JString ''Invalid file type. Expected EPUB file.'')] 400,
           db \<lparr> session_user := Some user \<rparr>)"
    using upload_invalid_type[of sc user req "file" digest]
      upload_as_invalid_type[of "file" digest uuid user db] by simp
  have d: "getUser_reply sc = Reply (Some user) None \<and> req = FormData (Some (FileValue file))
        \<and> (File_type file = ''application/epub+zip''
             \<or> endsWith (toLowerCase (File_name file)) ''.epub'') \<longrightarrow>
      take 2 (snd (upload digest sc req))
        = [GetUser, SelectBookByChecksum (fingerprint digest file)]
      \<and> (status (fst (upload digest sc req)) = 200 \<or> status (fst (upload digest sc req)) = 500)"
    using upload_accepted_prefix[of sc req user "file" digest]
      upload_accepted_status[of sc req user "file" digest]
    unfolding accepted_def by blast
  from a b c d show ?thesis by (intro conjI)
qed

text \<open>An entry \<open>file\<close> that is a string, and a body that is not form data.\<close>

lemma upload_string_entry:
  "getUser_reply sc = Reply (Some user) None \<Longrightarrow>
   upload digest sc (FormData (Some (StringValue s)))
     = (if s = [] then NextResponse_json [(''error'', JString ''No file provided'')] 400
        else POST_catch TypeError_toLowerCase,
        [GetUser])"
  by (simp add: upload_def POST_def)

lemma upload_not_form_data:
  "getUser_reply sc = Reply (Some user) None \<Longrightarrow>
   upload digest sc (NotFormData msg) = (POST_catch msg, [GetUser])"
  by (simp add: upload_def POST_def)

text \<open>
  Claim C5 fails on a form whose entry \<open>file\<close> is not a file. The user is authenticated and
  the form holds a text field named \<open>file\<close> with the value \<open>hello\<close>, so no file is present;
  the handler passes the check for a missing file, throws on \<open>file.name.toLowerCase()\<close> and
  answers 500 from its \<open>catch\<close>, not 400. The only call it has made is the authentication.
\<close>

theorem upload_text_field:
  "upload example_digest example_script (FormData (Some (StringValue ''hello'')))
     = (NextResponse_json
          [(''error'', JString ''Internal server error''),
           (''details'',
            JString ''Cannot read properties of undefined (reading 'toLowerCase')'')] 500,
        [GetUser])
   \<and> status (fst (upload example_digest example_script (FormData (Some (StringValue ''hello'')))))
       = 500"
proof -
  have u: "getUser_reply example_script = Reply (Some ''alice'') None"
    by (simp add: example_script_def)
  show ?thesis
    by (simp add: upload_string_entry[OF u] POST_catch_def TypeError_toLowerCase_def
        NextResponse_json_def)
qed

text \<open>
  Claim C4. For an accepted request the handler looks the fingerprint up once, right after
  authentication. A lookup error with a code other than \<open>PGRST116\<close> ends the request with
  500 and the error's message as details. An error with the code \<open>PGRST116\<close> changes
  nothing: the run is the run without that error, and with no data it goes on to insert a new
  book. A second lookup, with the same fingerprint, is made only after an insert refused
  with the code \<open>23505\<close>.
\<close>

theorem duplicate_lookup_outcomes:
  "accepted sc req user file \<Longrightarrow>
   (error (existingBook_reply sc) = Some e \<and> code e \<noteq> ''PGRST116'' \<longrightarrow>
      upload digest sc req
        = (error_response ''Database error'' e,
           [GetUser, SelectBookByChecksum (fingerprint digest file)]))
   \<and> (error (existingBook_reply sc) = Some e \<and> code e = ''PGRST116'' \<longrightarrow>
      upload digest sc req
        = upload digest (sc \<lparr> existingBook_reply := Reply (data (existingBook_reply sc)) None \<rparr>) req)
   \<and> (not_found (existingBook_reply sc) \<longrightarrow>
      take 4 (snd (upload digest sc req))
        = [GetUser, SelectBookByChecksum (fingerprint digest file), RandomUUID,
           InsertBook (bookData_of user (randomUUID_reply sc) file (fingerprint digest file))])
   \<and> filter is_checksum_lookup (snd (upload digest sc req))
        = (if not_found (existingBook_reply sc)
              \<and> (case bookError_reply sc of Some be \<Rightarrow> code be = ''23505'' | None \<Rightarrow> False)
           then [SelectBookByChecksum (fingerprint digest file),
                 SelectBookByChecksum (fingerprint digest file)]
           else [SelectBookByChecksum (fingerprint digest file)])"
proof -
  assume acc: "accepted sc req user file"
  let ?sc' = "sc \<lparr> existingBook_reply := Reply (data (existingBook_reply sc)) None \<rparr>"
  have acc': "accepted ?sc' req user file" using acc by (simp add: accepted_def)
  have a: "error (existingBook_reply sc) = Some e \<and> code e \<noteq> ''PGRST116'' \<longrightarrow>
      upload digest sc req
        = (error_response ''Database error'' e,
           [GetUser, SelectBookByChecksum (fingerprint digest file)])"
    by (simp add: upload_accepted[OF acc] Let_def)
  have b: "error (existingBook_reply sc) = Some e \<and> code e = ''PGRST116'' \<longrightarrow>
      upload digest sc req = upload digest ?sc' req"
    by (simp add: upload_accepted[OF acc] upload_accepted[OF acc'] run_POST_duplicate
        run_POST_new_book Let_def split: option.splits)
  have c: "not_found (existingBook_reply sc) \<longrightarrow>
      take 4 (snd (upload digest sc req))
        = [GetUser, SelectBookByChecksum (fingerprint digest file), RandomUUID,
           InsertBook (bookData_of user (randomUUID_reply sc) file (fingerprint digest file))]"
    by (simp add: upload_accepted[OF acc] run_POST_new_book not_found_def Let_def
        split: option.splits)
  have d: "filter is_checksum_lookup (snd (upload digest sc req))
        = (if not_found (existingBook_reply sc)
              \<and> (case bookError_reply sc of Some be \<Rightarrow> code be = ''23505'' | None \<Rightarrow> False)
           then [SelectBookByChecksum (fingerprint digest file),
                 SelectBookByChecksum (fingerprint digest file)]
           else [SelectBookByChecksum (fingerprint digest file)])"
    by (simp add: upload_accepted[OF acc] run_POST_duplicate run_POST_new_book not_found_def
        Let_def split: option.splits)
  from a b c d show ?thesis by blast
qed



subsection \<open>The upload handler against the reference backend\<close>



lemma single_Nil [simp]: "single [] = Reply None (Some no_rows)"
  by (simp add: single_def)

lemma single_one [simp]: "single [r] = Reply (Some r) None"
  by (simp add: single_def)

lemma upload_as_fresh:
  assumes ok: "File_type fl = ''application/epub+zip''
               \<or> endsWith (toLowerCase (File_name fl)) ''.epub''"
    and fresh: "\<forall>b \<in> set (books db). file_checksum b \<noteq> fingerprint digest fl
                  \<and> id_col b \<noteq> uuid (uuids_used db)"
    and free: "\<forall>obj \<in> set (epubs db).
                 fst obj \<noteq> ''books/'' @ u @ ''/'' @ uuid (uuids_used db) @ ''.epub''"
  shows "upload_as digest uuid u fl db
     = (NextResponse_json [(''book_id'', JString (uuid (uuids_used db))),
                           (''message'', JString ''Book uploaded successfully'')] 200,
        db \<lparr> session_user := Some u,
             books := books db @ [bookData_of u (uuid (uuids_used db)) fl (fingerprint digest fl)],
             user_books := user_books db @
               [\<lparr> link_id = length (user_books db), user_id = u, book_id = uuid (uuids_used db) \<rparr>],
             epubs := epubs db @
               [(''books/'' @ u @ ''/'' @ uuid (uuids_used db) @ ''.epub'', File_arrayBuffer fl)],
             uuids_used := Suc (uuids_used db) \<rparr>)"
proof -
  have f1: "filter (\<lambda>b. file_checksum b = hashHex_of (digest (File_arrayBuffer fl))) (books db) = []"
    using fresh by (simp add: filter_empty_conv fingerprint_def)
  have f2: "filter (\<lambda>b. id_col b = uuid (uuids_used db)
                        \<or> file_checksum b = hashHex_of (digest (File_arrayBuffer fl))) (books db) = []"
    using fresh by (simp add: filter_empty_conv fingerprint_def)
  have f3: "filter (\<lambda>obj. fst obj = ''books/'' @ u @ ''/'' @ uuid (uuids_used db) @ ''.epub'') (epubs db) = []"
    using free by (simp add: filter_empty_conv)
  have ok': "\<not> (File_type fl \<noteq> ''application/epub+zip''
                  \<and> \<not> endsWith (toLowerCase (File_name fl)) ''.epub'')"
    using ok by blast
  show ?thesis
    using f1 f2 f3
    by (simp add: ok' upload_as_def POST_def POST_new_book_def in_memory_def Let_def bookData_of_def
        fingerprint_def no_rows_def)
qed

lemma upload_as_duplicate:
  assumes ok: "File_type fl = ''application/epub+zip''
               \<or> endsWith (toLowerCase (File_name fl)) ''.epub''"
    and one: "filter (\<lambda>b. file_checksum b = fingerprint digest fl) (books db) = [row]"
    and nolink: "\<forall>l \<in> set (user_books db). \<not> (user_id l = u \<and> book_id l = id_col row)"
  shows "upload_as digest uuid u fl db
     = (duplicate_response (id_col row),
        db \<lparr> session_user := Some u,
             user_books := user_books db @
               [\<lparr> link_id = length (user_books db), user_id = u, book_id = id_col row \<rparr>] \<rparr>)"
proof -
  have f1: "filter (\<lambda>b. file_checksum b = hashHex_of (digest (File_arrayBuffer fl))) (books db) = [row]"
    using one by (simp add: fingerprint_def)
  have f2: "filter (\<lambda>l. user_id l = u \<and> book_id l = id_col row) (user_books db) = []"
    using nolink by (simp add: filter_empty_conv)
  have ok': "\<not> (File_type fl \<noteq> ''application/epub+zip''
                  \<and> \<not> endsWith (toLowerCase (File_name fl)) ''.epub'')"
    using ok by blast
  show ?thesis
    using f1 f2
    by (simp add: ok' upload_as_def POST_def POST_duplicate_def in_memory_def Let_def)
qed


lemma upload_as_storage_taken:
  assumes ok: "File_type fl = ''application/epub+zip''
               \<or> endsWith (toLowerCase (File_name fl)) ''.epub''"
    and fresh: "\<forall>b \<in> set (books db). file_checksum b \<noteq> fingerprint digest fl
                  \<and> id_col b \<noteq> uuid (uuids_used db)"
    and taken: "(''books/'' @ u @ ''/'' @ uuid (uuids_used db) @ ''.epub'', old) \<in> set (epubs db)"
  shows "upload_as digest uuid u fl db
     = (error_response ''Failed to upload file to storage'' already_exists,
        db \<lparr> session_user := Some u, uuids_used := Suc (uuids_used db) \<rparr>)"
proof -
  have f1: "filter (\<lambda>b. file_checksum b = hashHex_of (digest (File_arrayBuffer fl))) (books db) = []"
    using fresh by (simp add: filter_empty_conv fingerprint_def)
  have f2: "filter (\<lambda>b. id_col b = uuid (uuids_used db)
                        \<or> file_checksum b = hashHex_of (digest (File_arrayBuffer fl))) (books db) = []"
    using fresh by (simp add: filter_empty_conv fingerprint_def)
  have f3: "filter (\<lambda>obj. fst obj = ''books/'' @ u @ ''/'' @ uuid (uuids_used db) @ ''.epub'') (epubs db) \<noteq> []"
    using taken by (force simp: filter_empty_conv)
  have f4: "filter (\<lambda>b. id_col b \<noteq> uuid (uuids_used db)) (books db) = books db"
    using fresh by (simp add: filter_id_conv)
  have ok': "\<not> (File_type fl \<noteq> ''application/epub+zip''
                  \<and> \<not> endsWith (toLowerCase (File_name fl)) ''.epub'')"
    using ok by blast
  show ?thesis
    using f1 f2 f3 f4
    by (simp add: ok' upload_as_def POST_def POST_new_book_def in_memory_def Let_def
        error_response_def no_rows_def)
qed

lemma two_users_same_bytes:
  assumes ok1: "File_type file1 = ''application/epub+zip''
               \<or> endsWith (toLowerCase (File_name file1)) ''.epub''"
    and ok2: "File_type file2 = ''application/epub+zip''
               \<or> endsWith (toLowerCase (File_name file2)) ''.epub''"
    and same: "File_arrayBuffer file2 = File_arrayBuffer file1"
    and fresh: "\<forall>b \<in> set (books db). file_checksum b \<noteq> fingerprint digest file1
                  \<and> id_col b \<noteq> uuid (uuids_used db)"
    and free: "\<forall>obj \<in> set (epubs db).
                 fst obj \<noteq> ''books/'' @ u1 @ ''/'' @ uuid (uuids_used db) @ ''.epub''"
    and nolinks: "\<forall>l \<in> set (user_books db). book_id l \<noteq> uuid (uuids_used db)"
    and other: "u1 \<noteq> u2"
  shows "fst (upload_as digest uuid u2 file2 (snd (upload_as digest uuid u1 file1 db)))
           = duplicate_response (uuid (uuids_used db))
    \<and> filter (\<lambda>b. file_checksum b = fingerprint digest file1)
         (books (snd (upload_as digest uuid u2 file2 (snd (upload_as digest uuid u1 file1 db)))))
         = [bookData_of u1 (uuid (uuids_used db)) file1 (fingerprint digest file1)]
    \<and> map user_id (filter (\<lambda>l. book_id l = uuid (uuids_used db))
         (user_books (snd (upload_as digest uuid u2 file2 (snd (upload_as digest uuid u1 file1 db))))))
         = [u1, u2]
    \<and> epubs (snd (upload_as digest uuid u2 file2 (snd (upload_as digest uuid u1 file1 db))))
         = epubs db @ [(''books/'' @ u1 @ ''/'' @ uuid (uuids_used db) @ ''.epub'',
                        File_arrayBuffer file1)]"
proof -
  let ?h = "fingerprint digest file1"
  let ?newid = "uuid (uuids_used db)"
  let ?row = "bookData_of u1 ?newid file1 ?h"
  let ?db1 = "snd (upload_as digest uuid u1 file1 db)"
  have fp: "fingerprint digest file2 = ?h" using same by (simp add: fingerprint_def)
  have db1: "?db1 = db \<lparr> session_user := Some u1,
             books := books db @ [?row],
             user_books := user_books db @
               [\<lparr> link_id = length (user_books db), user_id = u1, book_id = ?newid \<rparr>],
             epubs := epubs db @
               [(''books/'' @ u1 @ ''/'' @ ?newid @ ''.epub'', File_arrayBuffer file1)],
             uuids_used := Suc (uuids_used db) \<rparr>"
    using upload_as_fresh[where fl = file1 and db = db and digest = digest and uuid = uuid and u = u1, OF ok1 fresh free] by simp
  have none: "filter (\<lambda>b. file_checksum b = ?h) (books db) = []"
    using fresh by (simp add: filter_empty_conv)
  have one: "filter (\<lambda>b. file_checksum b = fingerprint digest file2) (books ?db1) = [?row]"
    unfolding db1 fp using none by (simp add: bookData_of_def)
  have idrow: "id_col ?row = ?newid" by (simp add: bookData_of_def)
  have nolink2: "\<forall>l \<in> set (user_books ?db1). \<not> (user_id l = u2 \<and> book_id l = id_col ?row)"
    unfolding db1 idrow using nolinks other by auto
  have db2: "upload_as digest uuid u2 file2 ?db1
     = (duplicate_response (id_col ?row),
        ?db1 \<lparr> session_user := Some u2,
             user_books := user_books ?db1 @
               [\<lparr> link_id = length (user_books ?db1), user_id = u2, book_id = id_col ?row \<rparr>] \<rparr>)"
    by (rule upload_as_duplicate[where fl = file2 and digest = digest and uuid = uuid and u = u2, OF ok2 one nolink2])
  have links0: "filter (\<lambda>l. book_id l = ?newid) (user_books db) = []"
    using nolinks by (simp add: filter_empty_conv)
  show ?thesis
    unfolding db2 idrow
    by (simp add: db1 none links0 bookData_of_def)
qed



lemma upload_storage_failure:
  "accepted sc req user fl \<Longrightarrow> not_found (existingBook_reply sc) \<Longrightarrow>
   bookError_reply sc = None \<Longrightarrow> uploadError_reply sc = Some e \<Longrightarrow>
   upload digest sc req
     = (error_response ''Failed to upload file to storage'' e,
        [GetUser, SelectBookByChecksum (fingerprint digest fl), RandomUUID,
         InsertBook (bookData_of user (randomUUID_reply sc) fl (fingerprint digest fl)),
         StorageUpload (''books/'' @ user @ ''/'' @ randomUUID_reply sc @ ''.epub'')
           (File_arrayBuffer fl),
         DeleteBook (randomUUID_reply sc)])"
  by (auto simp: upload_accepted run_POST_new_book not_found_def Let_def split: option.splits)

lemma upload_link_failure:
  "accepted sc req user fl \<Longrightarrow> not_found (existingBook_reply sc) \<Longrightarrow>
   bookError_reply sc = None \<Longrightarrow> uploadError_reply sc = None \<Longrightarrow>
   linkError_reply sc = Some e \<Longrightarrow>
   upload digest sc req
     = (error_response ''Failed to link book to user'' e,
        [GetUser, SelectBookByChecksum (fingerprint digest fl), RandomUUID,
         InsertBook (bookData_of user (randomUUID_reply sc) fl (fingerprint digest fl)),
         StorageUpload (''books/'' @ user @ ''/'' @ randomUUID_reply sc @ ''.epub'')
           (File_arrayBuffer fl),
         InsertUserBook user (randomUUID_reply sc),
         DeleteBook (randomUUID_reply sc),
         StorageRemove [''books/'' @ user @ ''/'' @ randomUUID_reply sc @ ''.epub'']])"
  by (auto simp: upload_accepted run_POST_new_book not_found_def Let_def split: option.splits)

lemma upload_duplicate:
  "accepted sc req user fl \<Longrightarrow> existingBook_reply sc = Reply (Some b) None \<Longrightarrow>
   snd (upload digest sc req)
     = [GetUser, SelectBookByChecksum (fingerprint digest fl), SelectUserBook user (ref_id b)]
       @ (if data (existingLink_reply sc) = None then [InsertUserBook user (ref_id b)] else [])
   \<and> fst (upload digest sc req)
     = (case (data (existingLink_reply sc), linkError_reply sc) of
          (None, Some le) \<Rightarrow> error_response ''Failed to link book to user'' le
        | _ \<Rightarrow> duplicate_response (ref_id b))"
  by (simp add: upload_accepted run_POST_duplicate Let_def split: option.splits)

text \<open>
  Claim C3. For an accepted request that is not a duplicate and whose book record was
  inserted: when the upload to storage fails, the handler deletes the record it inserted and
  answers 500; when the upload succeeds and the insert of the link fails, it deletes the record,
  removes the object it uploaded and answers 500. On the reference backend, where the upload
  fails because the path is taken, the tables and the bucket are afterwards what they were.
\<close>

theorem compensation_after_failure:
  "(accepted sc req user fl \<and> not_found (existingBook_reply sc) \<and> bookError_reply sc = None
      \<and> uploadError_reply sc = Some e \<longrightarrow>
      upload digest sc req
        = (error_response ''Failed to upload file to storage'' e,
           [GetUser, SelectBookByChecksum (fingerprint digest fl), RandomUUID,
            InsertBook (bookData_of user (randomUUID_reply sc) fl (fingerprint digest fl)),
            StorageUpload (''books/'' @ user @ ''/'' @ randomUUID_reply sc @ ''.epub'')
              (File_arrayBuffer fl),
            DeleteBook (randomUUID_reply sc)]))
   \<and> (accepted sc req user fl \<and> not_found (existingBook_reply sc) \<and> bookError_reply sc = None
      \<and> uploadError_reply sc = None \<and> linkError_reply sc = Some e \<longrightarrow>
      upload digest sc req
        = (error_response ''Failed to link book to user'' e,
           [GetUser, SelectBookByChecksum (fingerprint digest fl), RandomUUID,
            InsertBook (bookData_of user (randomUUID_reply sc) fl (fingerprint digest fl)),
            StorageUpload (''books/'' @ user @ ''/'' @ randomUUID_reply sc @ ''.epub'')
              (File_arrayBuffer fl),
            InsertUserBook user (randomUUID_reply sc),
            DeleteBook (randomUUID_reply sc),
            StorageRemove [''books/'' @ user @ ''/'' @ randomUUID_reply sc @ ''.epub'']]))
   \<and> status (error_response ''Failed to upload file to storage'' e) = 500
   \<and> status (error_response ''Failed to link book to user'' e) = 500
   \<and> id_col (bookData_of user (randomUUID_reply sc) fl (fingerprint digest fl))
        = randomUUID_reply sc
   \<and> storage_path (bookData_of user (randomUUID_reply sc) fl (fingerprint digest fl))
        = ''books/'' @ user @ ''/'' @ randomUUID_reply sc @ ''.epub''
   \<and> ((File_type fl = ''application/epub+zip'' \<or> endsWith (toLowerCase (File_name fl)) ''.epub'')
        \<and> (\<forall>b \<in> set (books db). file_checksum b \<noteq> fingerprint digest fl
                                   \<and> id_col b \<noteq> uuid (uuids_used db))
        \<and> (''books/'' @ user @ ''/'' @ uuid (uuids_used db) @ ''.epub'', old) \<in> set (epubs db)
      \<longrightarrow> upload_as digest uuid user fl db
            = (error_response ''Failed to upload file to storage'' already_exists,
               db \<lparr> session_user := Some user, uuids_used := Suc (uuids_used db) \<rparr>))"
proof -
  note a = upload_storage_failure[of sc req user fl e digest]
  note b = upload_link_failure[of sc req user fl e digest]
  have c: "status (error_response ''Failed to upload file to storage'' e) = 500
   \<and> status (error_response ''Failed to link book to user'' e) = 500
   \<and> id_col (bookData_of user (randomUUID_reply sc) fl (fingerprint digest fl))
        = randomUUID_reply sc
   \<and> storage_path (bookData_of user (randomUUID_reply sc) fl (fingerprint digest fl))
        = ''books/'' @ user @ ''/'' @ randomUUID_reply sc @ ''.epub''"
    by (simp add: error_response_def NextResponse_json_def bookData_of_def)
  have d: "(File_type fl = ''application/epub+zip'' \<or> endsWith (toLowerCase (File_name fl)) ''.epub'')
        \<and> (\<forall>b \<in> set (books db). file_checksum b \<noteq> fingerprint digest fl
                                   \<and> id_col b \<noteq> uuid (uuids_used db))
        \<and> (''books/'' @ user @ ''/'' @ uuid (uuids_used db) @ ''.epub'', old) \<in> set (epubs db)
      \<longrightarrow> upload_as digest uuid user fl db
            = (error_response ''Failed to upload file to storage'' already_exists,
               db \<lparr> session_user := Some user, uuids_used := Suc (uuids_used db) \<rparr>)"
    using upload_as_storage_taken[where fl = fl and db = db and digest = digest and uuid = uuid
        and u = user and old = old]
    by blast
  from a b c d show ?thesis by (intro conjI) blast+
qed

text \<open>
  Claim C2, as amended. For an accepted request whose lookup returns an existing record, the
  handler looks the link up, inserts a link only when that lookup returns nothing, and makes no
  other call: no upload to storage and no insert of a book. It answers 200 with \<open>duplicate\<close>
  and the identifier of the existing record, unless the insert of the link was attempted and
  failed, in which case it answers 500. On the reference backend, after a first user has
  uploaded a file that was new, a second user uploading the same bytes gets \<open>duplicate\<close> and
  the first upload's identifier; there is then one record with that fingerprint, one stored
  object more than before, and the links to the record are those of the two users.
\<close>

theorem duplicate_path:
  "(accepted sc req user fl \<and> existingBook_reply sc = Reply (Some b) None \<longrightarrow>
      snd (upload digest sc req)
        = [GetUser, SelectBookByChecksum (fingerprint digest fl), SelectUserBook user (ref_id b)]
          @ (if data (existingLink_reply sc) = None then [InsertUserBook user (ref_id b)] else [])
      \<and> fst (upload digest sc req)
        = (case (data (existingLink_reply sc), linkError_reply sc) of
             (None, Some le) \<Rightarrow> error_response ''Failed to link book to user'' le
           | _ \<Rightarrow> duplicate_response (ref_id b)))
   \<and> ((File_type file1 = ''application/epub+zip''
          \<or> endsWith (toLowerCase (File_name file1)) ''.epub'')
        \<and> (File_type file2 = ''application/epub+zip''
          \<or> endsWith (toLowerCase (File_name file2)) ''.epub'')
        \<and> File_arrayBuffer file2 = File_arrayBuffer file1
        \<and> (\<forall>b \<in> set (books db). file_checksum b \<noteq> fingerprint digest file1
                                   \<and> id_col b \<noteq> uuid (uuids_used db))
        \<and> (\<forall>obj \<in> set (epubs db).
              fst obj \<noteq> ''books/'' @ u1 @ ''/'' @ uuid (uuids_used db) @ ''.epub'')
        \<and> (\<forall>l \<in> set (user_books db). book_id l \<noteq> uuid (uuids_used db))
        \<and> u1 \<noteq> u2
      \<longrightarrow> fst (upload_as digest uuid u2 file2 (snd (upload_as digest uuid u1 file1 db)))
             = duplicate_response (uuid (uuids_used db))
          \<and> filter (\<lambda>b. file_checksum b = fingerprint digest file1)
               (books (snd (upload_as digest uuid u2 file2 (snd (upload_as digest uuid u1 file1 db)))))
             = [bookData_of u1 (uuid (uuids_used db)) file1 (fingerprint digest file1)]
          \<and> map user_id (filter (\<lambda>l. book_id l = uuid (uuids_used db))
               (user_books (snd (upload_as digest uuid u2 file2
                                   (snd (upload_as digest uuid u1 file1 db))))))
             = [u1, u2]
          \<and> epubs (snd (upload_as digest uuid u2 file2 (snd (upload_as digest uuid u1 file1 db))))
             = epubs db @ [(''books/'' @ u1 @ ''/'' @ uuid (uuids_used db) @ ''.epub'',
                            File_arrayBuffer file1)])"
proof -
  note a = upload_duplicate[of sc req user fl b digest]
  show ?thesis
    using a
      two_users_same_bytes[where ?file1.0 = file1 and ?file2.0 = file2 and db = db
        and digest = digest and uuid = uuid and ?u1.0 = u1 and ?u2.0 = u2]
    by blast
qed


subsection \<open>Failure of the insert of a new book\<close>

lemma upload_race_found:
  "accepted sc req user fl \<Longrightarrow> not_found (existingBook_reply sc) \<Longrightarrow>
   bookError_reply sc = Some e \<Longrightarrow> code e = ''23505'' \<Longrightarrow>
   data (raceConditionBook_reply sc) = Some rb \<Longrightarrow>
   upload digest sc req
     = (duplicate_response (ref_id rb),
        [GetUser, SelectBookByChecksum (fingerprint digest fl), RandomUUID,
         InsertBook (bookData_of user (randomUUID_reply sc) fl (fingerprint digest fl)),
         SelectBookByChecksum (fingerprint digest fl),
         SelectUserBook user (ref_id rb)]
        @ (if data (existingLink_reply sc) = None then [InsertUserBook user (ref_id rb)]
           else []))"
  by (auto simp: upload_accepted run_POST_new_book not_found_def Let_def split: option.splits)

lemma upload_race_lost:
  "accepted sc req user fl \<Longrightarrow> not_found (existingBook_reply sc) \<Longrightarrow>
   bookError_reply sc = Some e \<Longrightarrow> code e = ''23505'' \<Longrightarrow>
   data (raceConditionBook_reply sc) = None \<Longrightarrow>
   upload digest sc req
     = (insert_failed_response e,
        [GetUser, SelectBookByChecksum (fingerprint digest fl), RandomUUID,
         InsertBook (bookData_of user (randomUUID_reply sc) fl (fingerprint digest fl)),
         SelectBookByChecksum (fingerprint digest fl)])"
  by (auto simp: upload_accepted run_POST_new_book not_found_def Let_def split: option.splits)

lemma upload_insert_refused:
  "accepted sc req user fl \<Longrightarrow> not_found (existingBook_reply sc) \<Longrightarrow>
   bookError_reply sc = Some e \<Longrightarrow> code e \<noteq> ''23505'' \<Longrightarrow>
   upload digest sc req
     = (insert_failed_response e,
        [GetUser, SelectBookByChecksum (fingerprint digest fl), RandomUUID,
         InsertBook (bookData_of user (randomUUID_reply sc) fl (fingerprint digest fl))])"
  by (auto simp: upload_accepted run_POST_new_book not_found_def Let_def split: option.splits)

lemma status_responses:
  "status (duplicate_response i) = 200"
  "status (error_response what e) = 500"
  "status (insert_failed_response e) = 500"
  by (simp_all add: duplicate_response_def error_response_def insert_failed_response_def
      NextResponse_json_def)

text \<open>
  Claim C1, as amended. For an accepted request whose lookup found nothing and whose insert of
  the new book failed: when the error code is \<open>23505\<close> (whatever the constraint) and the second
  lookup by fingerprint returns a record, the handler looks the link up, inserts it only when
  that lookup returns nothing, and answers 200 with \<open>duplicate\<close> and the identifier of that
  record; when the code is \<open>23505\<close> and the second lookup returns nothing, and when the code is
  any other, it answers 500 with the message, code and hint of the insert error, having made
  no write but the refused insert.
\<close>

theorem insert_failure_paths:
  "accepted sc req user file \<Longrightarrow> not_found (existingBook_reply sc) \<Longrightarrow>
   bookError_reply sc = Some e \<Longrightarrow>
   (code e = ''23505'' \<and> data (raceConditionBook_reply sc) = Some rb \<longrightarrow>
      upload digest sc req
        = (duplicate_response (ref_id rb),
           [GetUser, SelectBookByChecksum (fingerprint digest file), RandomUUID,
            InsertBook (bookData_of user (randomUUID_reply sc) file (fingerprint digest file)),
            SelectBookByChecksum (fingerprint digest file),
            SelectUserBook user (ref_id rb)]
           @ (if data (existingLink_reply sc) = None then [InsertUserBook user (ref_id rb)]
              else []))
      \<and> status (duplicate_response (ref_id rb)) = 200)
   \<and> (code e = ''23505'' \<and> data (raceConditionBook_reply sc) = None \<longrightarrow>
      upload digest sc req
        = (insert_failed_response e,
           [GetUser, SelectBookByChecksum (fingerprint digest file), RandomUUID,
            InsertBook (bookData_of user (randomUUID_reply sc) file (fingerprint digest file)),
            SelectBookByChecksum (fingerprint digest file)]))
   \<and> (code e \<noteq> ''23505'' \<longrightarrow>
      upload digest sc req
        = (insert_failed_response e,
           [GetUser, SelectBookByChecksum (fingerprint digest file), RandomUUID,
            InsertBook (bookData_of user (randomUUID_reply sc) file (fingerprint digest file))]))
   \<and> status (insert_failed_response e) = 500"
proof -
  assume acc: "accepted sc req user file"
    and nf: "not_found (existingBook_reply sc)"
    and be: "bookError_reply sc = Some e"
  show ?thesis
  proof (intro conjI impI)
    assume "code e = ''23505'' \<and> data (raceConditionBook_reply sc) = Some rb"
    then show "upload digest sc req
        = (duplicate_response (ref_id rb),
           [GetUser, SelectBookByChecksum (fingerprint digest file), RandomUUID,
            InsertBook (bookData_of user (randomUUID_reply sc) file (fingerprint digest file)),
            SelectBookByChecksum (fingerprint digest file),
            SelectUserBook user (ref_id rb)]
           @ (if data (existingLink_reply sc) = None then [InsertUserBook user (ref_id rb)]
              else []))"
      using upload_race_found[OF acc nf be] by blast
  next
    show "status (duplicate_response (ref_id rb)) = 200"
      by (rule status_responses)
  next
    assume "code e = ''23505'' \<and> data (raceConditionBook_reply sc) = None"
    then show "upload digest sc req
        = (insert_failed_response e,
           [GetUser, SelectBookByChecksum (fingerprint digest file), RandomUUID,
            InsertBook (bookData_of user (randomUUID_reply sc) file (fingerprint digest file)),
            SelectBookByChecksum (fingerprint digest file)])"
      using upload_race_lost[OF acc nf be] by blast
  next
    assume "code e \<noteq> ''23505''"
    then show "upload digest sc req
        = (insert_failed_response e,
           [GetUser, SelectBookByChecksum (fingerprint digest file), RandomUUID,
            InsertBook (bookData_of user (randomUUID_reply sc) file (fingerprint digest file))])"
      by (rule upload_insert_refused[OF acc nf be])
  next
    show "status (insert_failed_response e) = 500"
      by (rule status_responses)
  qed
qed

text \<open>
  Claim C10. After an insert of the book refused with the code \<open>23505\<close> and a second lookup
  that returns a record, the handler answers 200 with \<open>duplicate\<close> whatever the insert of the
  link returns; when the link lookup finds nothing, that insert is its last call. On the
  ordinary duplicate path, when the link lookup finds nothing and the insert of the link
  fails, it answers 500.
\<close>

theorem link_failure_in_race_recovery:
  "accepted sc req user file \<Longrightarrow>
   (not_found (existingBook_reply sc) \<and> bookError_reply sc = Some e \<and> code e = ''23505''
      \<and> data (raceConditionBook_reply sc) = Some rb \<longrightarrow>
      fst (upload digest sc req) = duplicate_response (ref_id rb)
      \<and> status (fst (upload digest sc req)) = 200
      \<and> (data (existingLink_reply sc) = None \<longrightarrow>
           last (snd (upload digest sc req)) = InsertUserBook user (ref_id rb)))
   \<and> (existingBook_reply sc = Reply (Some b) None \<and> data (existingLink_reply sc) = None
      \<and> linkError_reply sc = Some le \<longrightarrow>
      upload digest sc req
        = (error_response ''Failed to link book to user'' le,
           [GetUser, SelectBookByChecksum (fingerprint digest file),
            SelectUserBook user (ref_id b), InsertUserBook user (ref_id b)])
      \<and> status (fst (upload digest sc req)) = 500)"
proof -
  assume acc: "accepted sc req user file"
  have race: "fst (upload digest sc req) = duplicate_response (ref_id rb)
      \<and> status (fst (upload digest sc req)) = 200
      \<and> (data (existingLink_reply sc) = None \<longrightarrow>
           last (snd (upload digest sc req)) = InsertUserBook user (ref_id rb))"
    if "not_found (existingBook_reply sc)" "bookError_reply sc = Some e" "code e = ''23505''"
       "data (raceConditionBook_reply sc) = Some rb"
    using upload_race_found[OF acc that, of digest] by (simp add: status_responses)
  have dup: "upload digest sc req
        = (error_response ''Failed to link book to user'' le,
           [GetUser, SelectBookByChecksum (fingerprint digest file),
            SelectUserBook user (ref_id b), InsertUserBook user (ref_id b)])
      \<and> status (fst (upload digest sc req)) = 500"
    if "existingBook_reply sc = Reply (Some b) None" "data (existingLink_reply sc) = None"
       "linkError_reply sc = Some le"
    using upload_duplicate[OF acc that(1), of digest] that(2,3)
    by (simp add: status_responses prod_eq_iff)
  from race dup show ?thesis by blast
qed


subsection \<open>The fingerprint\<close>

lemma hex_digit_zero: "hex_digit 0 = CHR ''0''"
  by code_simp

lemma toString16_small: "n < 16 \<Longrightarrow> toString16 n = [hex_digit n]"
  by (subst toString16.simps) simp

lemma byte_hex:
  "n < 256 \<Longrightarrow> padStart 2 (CHR ''0'') (toString16 n) = [hex_digit (n div 16), hex_digit (n mod 16)]"
proof (cases "n < 16")
  case True
  then show ?thesis
    by (simp add: toString16_small padStart_def hex_digit_zero)
next
  case False
  assume "n < 256"
  then have "n div 16 < 16" by simp
  then have "toString16 n = [hex_digit (n div 16), hex_digit (n mod 16)]"
    using False by (subst toString16.simps) (simp add: toString16_small)
  then show ?thesis by (simp add: padStart_def)
qed

lemma hashHex_of_bytes:
  "hashHex_of bs = concat (map (\<lambda>b. [hex_digit (unat b div 16), hex_digit (unat b mod 16)]) bs)"
proof -
  have "unat b < 256" for b :: "8 word"
    using unsigned_less[of b, where 'a = nat] by simp
  then show ?thesis
    by (simp add: hashHex_of_def byte_hex)
qed

lemma length_hashHex_of: "length (hashHex_of bs) = 2 * length bs"
  unfolding hashHex_of_bytes by (induction bs) simp_all

lemma hex_digit_lower: "d < 16 \<Longrightarrow> is_lower_hex (hex_digit d)"
  by (simp add: is_lower_hex_def is_digit_def hex_digit_def)

lemma hashHex_of_lower: "list_all is_lower_hex (hashHex_of bs)"
proof -
  have small: "unat b div 16 < 16" for b :: "8 word"
    using unsigned_less[of b, where 'a = nat] by simp
  show ?thesis
    unfolding hashHex_of_bytes by (induction bs) (simp_all add: hex_digit_lower small)
qed

text \<open>
  Claim C6. The fingerprint is a function of the bytes of the file alone: files with equal
  buffers have equal fingerprints. It renders every byte of the digest as two lower-case
  hexadecimal digits, the high one first, so a digest of 32 bytes (256 bits) gives 64
  characters. For an accepted request the lookup for a duplicate is made with the fingerprint
  of the whole buffer and is the first call after authentication. The digest itself is the
  platform's SHA-256 and is a parameter here.
\<close>

theorem fingerprint_rendering:
  "hashHex_of bs = concat (map (\<lambda>b. [hex_digit (unat b div 16), hex_digit (unat b mod 16)]) bs)
   \<and> length (hashHex_of bs) = 2 * length bs
   \<and> list_all is_lower_hex (hashHex_of bs)
   \<and> (length (digest (File_arrayBuffer file)) = 32 \<longrightarrow> length (fingerprint digest file) = 64)
   \<and> (File_arrayBuffer file' = File_arrayBuffer file \<longrightarrow>
        fingerprint digest file' = fingerprint digest file)
   \<and> (accepted sc req user file \<longrightarrow>
        take 2 (snd (upload digest sc req))
          = [GetUser, SelectBookByChecksum (fingerprint digest file)])"
  using hashHex_of_bytes[of bs] length_hashHex_of[of bs] hashHex_of_lower[of bs]
    length_hashHex_of[of "digest (File_arrayBuffer file)"]
    upload_accepted_prefix[of sc req user "file" digest]
  by (simp add: fingerprint_def)


subsection \<open>The reading page\<close>

lemma read_page_cases:
  "read_page sc ident =
     (case (error (getUser_reply sc), data (getUser_reply sc)) of
        (None, Some user) \<Rightarrow>
          (case (error (book_reply sc), data (book_reply sc)) of
             (None, Some book) \<Rightarrow>
               (case data (existingLink_reply sc) of
                  None \<Rightarrow> Redirect ''/''
                | Some _ \<Rightarrow>
                    (case entry_manifest_path book of
                       None \<Rightarrow> ManifestNotFound
                     | Some mp \<Rightarrow> if mp = [] then ManifestNotFound
                                  else BookReader ident mp (entry_title book)),
                [GetUser, SelectBookById ident, SelectUserBook user ident])
           | _ \<Rightarrow> (Redirect ''/'', [GetUser, SelectBookById ident]))
      | _ \<Rightarrow> (Redirect ''/auth/login'', [GetUser]))"
  by (simp add: read_page_def ReadBookPage_def split: option.splits)

lemma read_as_state: "snd (read_as digest uuid ident db) = db"
  by (simp add: read_as_def ReadBookPage_def in_memory_def single_def
      split: option.splits list.splits)

lemma read_as_not_owned:
  "filter (\<lambda>l. user_id l = user \<and> book_id l = ident) (user_books db) = [] \<Longrightarrow>
   session_user db = Some user \<Longrightarrow>
   fst (read_as digest uuid ident db) = Redirect ''/''"
  by (simp add: read_as_def ReadBookPage_def in_memory_def single_def
      split: option.splits list.splits)

lemma read_as_no_book:
  "filter (\<lambda>b. id_col b = ident) (books db) = [] \<Longrightarrow>
   fst (read_as digest uuid ident db) = Redirect ''/'' \<or>
   fst (read_as digest uuid ident db) = Redirect ''/auth/login''"
  by (simp add: read_as_def ReadBookPage_def in_memory_def single_def no_rows_def
      split: option.splits list.splits)

lemma read_as_no_book':
  "session_user db = Some user \<Longrightarrow> filter (\<lambda>b. id_col b = ident) (books db) = [] \<Longrightarrow>
   fst (read_as digest uuid ident db) = Redirect ''/''"
  by (simp add: read_as_def ReadBookPage_def in_memory_def single_def no_rows_def
      split: option.splits list.splits)

text \<open>
  Claim C8. The reading page redirects to the login page without an authenticated user; to
  the library root when the lookup of the book fails or finds nothing, and when the lookup of
  the link finds nothing; it shows the missing-manifest state when the manifest path is absent
  or empty; otherwise it hands the requested identifier, the manifest path and the title to
  the reader. It makes no call that writes, and leaves the reference backend as it was. On
  the reference backend a user without a link to the requested identifier is redirected to
  the library root, whether the book exists or not, and so is a user who asks for an
  identifier that no book has.
\<close>

theorem reading_page_outcomes:
  "(error (getUser_reply sc) \<noteq> None \<or> data (getUser_reply sc) = None \<longrightarrow>
      read_page sc ident = (Redirect ''/auth/login'', [GetUser]))
   \<and> (getUser_reply sc = Reply (Some user) None
        \<and> (error (book_reply sc) \<noteq> None \<or> data (book_reply sc) = None) \<longrightarrow>
      read_page sc ident = (Redirect ''/'', [GetUser, SelectBookById ident]))
   \<and> (getUser_reply sc = Reply (Some user) None \<and> book_reply sc = Reply (Some book) None
        \<and> data (existingLink_reply sc) = None \<longrightarrow>
      read_page sc ident
        = (Redirect ''/'', [GetUser, SelectBookById ident, SelectUserBook user ident]))
   \<and> (getUser_reply sc = Reply (Some user) None \<and> book_reply sc = Reply (Some book) None
        \<and> data (existingLink_reply sc) = Some l
        \<and> (entry_manifest_path book = None \<or> entry_manifest_path book = Some []) \<longrightarrow>
      read_page sc ident
        = (ManifestNotFound, [GetUser, SelectBookById ident, SelectUserBook user ident]))
   \<and> (getUser_reply sc = Reply (Some user) None \<and> book_reply sc = Reply (Some book) None
        \<and> data (existingLink_reply sc) = Some l
        \<and> entry_manifest_path book = Some manifestPath \<and> manifestPath \<noteq> [] \<longrightarrow>
      read_page sc ident
        = (BookReader ident manifestPath (entry_title book),
           [GetUser, SelectBookById ident, SelectUserBook user ident]))
   \<and> filter is_write (snd (read_page sc ident)) = []
   \<and> snd (read_as digest uuid ident db) = db
   \<and> (session_user db = Some user
        \<and> filter (\<lambda>l. user_id l = user \<and> book_id l = ident) (user_books db) = [] \<longrightarrow>
      fst (read_as digest uuid ident db) = Redirect ''/'')
   \<and> (session_user db = Some user \<and> filter (\<lambda>b. id_col b = ident) (books db) = [] \<longrightarrow>
      fst (read_as digest uuid ident db) = Redirect ''/'')"
proof -
  have w: "filter is_write (snd (read_page sc ident)) = []"
    by (simp add: read_page_cases split: option.splits)
  have rest: "(error (getUser_reply sc) \<noteq> None \<or> data (getUser_reply sc) = None \<longrightarrow>
      read_page sc ident = (Redirect ''/auth/login'', [GetUser]))
   \<and> (getUser_reply sc = Reply (Some user) None
        \<and> (error (book_reply sc) \<noteq> None \<or> data (book_reply sc) = None) \<longrightarrow>
      read_page sc ident = (Redirect ''/'', [GetUser, SelectBookById ident]))
   \<and> (getUser_reply sc = Reply (Some user) None \<and> book_reply sc = Reply (Some book) None
        \<and> data (existingLink_reply sc) = None \<longrightarrow>
      read_page sc ident
        = (Redirect ''/'', [GetUser, SelectBookById ident, SelectUserBook user ident]))
   \<and> (getUser_reply sc = Reply (Some user) None \<and> book_reply sc = Reply (Some book) None
        \<and> data (existingLink_reply sc) = Some l
        \<and> (entry_manifest_path book = None \<or> entry_manifest_path book = Some []) \<longrightarrow>
      read_page sc ident
        = (ManifestNotFound, [GetUser, SelectBookById ident, SelectUserBook user ident]))
   \<and> (getUser_reply sc = Reply (Some user) None \<and> book_reply sc = Reply (Some book) None
        \<and> data (existingLink_reply sc) = Some l
        \<and> entry_manifest_path book = Some manifestPath \<and> manifestPath \<noteq> [] \<longrightarrow>
      read_page sc ident
        = (BookReader ident manifestPath (entry_title book),
           [GetUser, SelectBookById ident, SelectUserBook user ident]))"
    by (auto simp: read_page_cases split: option.splits)
  show ?thesis
    using w rest read_as_state[of digest uuid ident db]
      read_as_not_owned[of user ident db digest uuid]
      read_as_no_book'[of db user ident digest uuid]
    by simp
qed



subsection \<open>Instances on the examples\<close>

lemma accepted_example: "accepted example_script example_request ''alice'' example_file"
  by code_simp

lemma example_file_ok:
  "File_type example_file = ''application/epub+zip''
   \<or> endsWith (toLowerCase (File_name example_file)) ''.epub''"
  by code_simp

lemma example_file'_ok:
  "File_type example_file' = ''application/epub+zip''
   \<or> endsWith (toLowerCase (File_name example_file')) ''.epub''"
  by code_simp

lemma example_text_file_rejected:
  "File_type example_text_file \<noteq> ''application/epub+zip''
   \<and> \<not> endsWith (toLowerCase (File_name example_text_file)) ''.epub''"
  by code_simp

lemma example_fingerprint:
  "fingerprint example_digest example_file
   = ''0000000000000000000000000000000000000000000000000000000000000005''"
  by code_simp

text \<open>
  Instances of the checks at the entry: an unauthenticated request, a request without a file,
  a text file, and an EPUB recognised by its extension alone.
\<close>

theorem upload_validation_witness:
  "data (getUser_reply unauthenticated_script) = None
   \<and> upload example_digest unauthenticated_script example_request
       = (NextResponse_json [(''error'', JString ''Unauthorized'')] 401, [GetUser])
   \<and> upload example_digest example_script (FormData None)
       = (NextResponse_json [(''error'', JString ''No file provided'')] 400, [GetUser])
   \<and> File_type example_text_file \<noteq> ''application/epub+zip''
   \<and> \<not> endsWith (toLowerCase (File_name example_text_file)) ''.epub''
   \<and> upload example_digest example_script (FormData (Some (FileValue example_text_file)))
       = (NextResponse_json [(''error'', JString ''Invalid file type. Expected EPUB file.'')] 400,
          [GetUser])
   \<and> upload_as example_digest example_uuid ''alice'' example_text_file example_backend
       = (NextResponse_json [(''error'', JString ''Invalid file type. Expected EPUB file.'')] 400,
          example_backend \<lparr> session_user := Some ''alice'' \<rparr>)
   \<and> endsWith (toLowerCase (File_name example_file)) ''.epub''
   \<and> take 2 (snd (upload example_digest example_script example_request))
       = [GetUser, SelectBookByChecksum
            ''0000000000000000000000000000000000000000000000000000000000000005'']"
proof -
  have u: "getUser_reply example_script = Reply (Some ''alice'') None"
    by (simp add: example_script_def)
  have n: "data (getUser_reply unauthenticated_script) = None"
    by (simp add: unauthenticated_script_def)
  have e: "endsWith (toLowerCase (File_name example_file)) ''.epub''"
    by code_simp
  have r: "example_request = FormData (Some (FileValue example_file))"
    by (simp add: example_request_def)
  from upload_validation
         [where sc = unauthenticated_script and digest = example_digest and req = example_request]
       upload_validation
         [where sc = example_script and digest = example_digest
            and req = "FormData None" and user = "''alice''"]
       upload_validation
         [where sc = example_script and digest = example_digest
            and req = "FormData (Some (FileValue example_text_file))" and user = "''alice''"
            and ?file = example_text_file and uuid = example_uuid and db = example_backend]
       upload_validation
         [where sc = example_script and digest = example_digest and req = example_request
            and user = "''alice''" and ?file = example_file]
       u n e r example_text_file_rejected example_fingerprint
  show ?thesis by simp
qed

text \<open>
  Instances of claim C4: a lookup that loses its connection, one that finds no row, and the two
  lookups of a run whose insert is refused as a duplicate.
\<close>

theorem duplicate_lookup_outcomes_witness:
  "accepted lookup_failure_script example_request ''alice'' example_file
   \<and> error (existingBook_reply lookup_failure_script) = Some connection_lost
   \<and> code connection_lost \<noteq> ''PGRST116''
   \<and> upload example_digest lookup_failure_script example_request
       = (error_response ''Database error'' connection_lost,
          [GetUser, SelectBookByChecksum (fingerprint example_digest example_file)])
   \<and> error (existingBook_reply example_script) = Some no_rows \<and> code no_rows = ''PGRST116''
   \<and> upload example_digest example_script example_request
       = upload example_digest
           (example_script \<lparr> existingBook_reply := Reply (data (existingBook_reply example_script)) None \<rparr>)
           example_request
   \<and> not_found (existingBook_reply example_script)
   \<and> take 4 (snd (upload example_digest example_script example_request))
       = [GetUser, SelectBookByChecksum (fingerprint example_digest example_file), RandomUUID,
          InsertBook (bookData_of ''alice'' (randomUUID_reply example_script) example_file
                        (fingerprint example_digest example_file))]
   \<and> filter is_checksum_lookup (snd (upload example_digest race_lost_script example_request))
       = [SelectBookByChecksum (fingerprint example_digest example_file),
          SelectBookByChecksum (fingerprint example_digest example_file)]"
proof -
  have a1: "accepted lookup_failure_script example_request ''alice'' example_file"
    using accepted_example by (simp add: accepted_def lookup_failure_script_def)
  have a2: "accepted race_lost_script example_request ''alice'' example_file"
    using accepted_example by (simp add: accepted_def race_lost_script_def)
  have h1: "error (existingBook_reply lookup_failure_script) = Some connection_lost
            \<and> code connection_lost \<noteq> ''PGRST116''"
    by (simp add: lookup_failure_script_def connection_lost_def)
  have h2: "error (existingBook_reply example_script) = Some no_rows \<and> code no_rows = ''PGRST116''"
    by (simp add: example_script_def no_rows_def)
  have h3: "not_found (existingBook_reply example_script)"
    by (simp add: not_found_def example_script_def no_rows_def)
  have h4: "not_found (existingBook_reply race_lost_script)
            \<and> bookError_reply race_lost_script = Some fingerprint_violation
            \<and> code fingerprint_violation = ''23505''"
    by (simp add: not_found_def race_lost_script_def example_script_def no_rows_def
        fingerprint_violation_def)
  note t1 = duplicate_lookup_outcomes[OF a1, where e = connection_lost and digest = example_digest]
  note t2 = duplicate_lookup_outcomes[OF accepted_example, where e = no_rows
              and digest = example_digest]
  note t3 = duplicate_lookup_outcomes[OF a2, where e = no_rows and digest = example_digest]
  have c1: "upload example_digest lookup_failure_script example_request
       = (error_response ''Database error'' connection_lost,
          [GetUser, SelectBookByChecksum (fingerprint example_digest example_file)])"
    using t1 h1 by blast
  have c2: "upload example_digest example_script example_request
       = upload example_digest
           (example_script \<lparr> existingBook_reply := Reply (data (existingBook_reply example_script)) None \<rparr>)
           example_request"
    using t2 h2 by blast
  have c3: "take 4 (snd (upload example_digest example_script example_request))
       = [GetUser, SelectBookByChecksum (fingerprint example_digest example_file), RandomUUID,
          InsertBook (bookData_of ''alice'' (randomUUID_reply example_script) example_file
                        (fingerprint example_digest example_file))]"
    using t2 h3 by blast
  have c4: "filter is_checksum_lookup (snd (upload example_digest race_lost_script example_request))
       = [SelectBookByChecksum (fingerprint example_digest example_file),
          SelectBookByChecksum (fingerprint example_digest example_file)]"
    using t3 h4 by simp
  from a1 h1 h2 h3 c1 c2 c3 c4 show ?thesis by blast
qed

lemma accepted_variants:
  "accepted race_found_script example_request ''alice'' example_file"
  "accepted race_found_link_failure_script example_request ''alice'' example_file"
  "accepted race_lost_script example_request ''alice'' example_file"
  "accepted insert_refused_script example_request ''alice'' example_file"
  "accepted duplicate_script example_request ''alice'' example_file"
  "accepted duplicate_link_failure_script example_request ''alice'' example_file"
  "accepted storage_failure_script example_request ''alice'' example_file"
  "accepted link_failure_script example_request ''alice'' example_file"
  using accepted_example
  by (simp_all add: accepted_def race_found_script_def race_found_link_failure_script_def
      race_lost_script_def insert_refused_script_def duplicate_script_def
      duplicate_link_failure_script_def storage_failure_script_def link_failure_script_def)

lemma not_found_variants:
  "not_found (existingBook_reply race_found_script)"
  "not_found (existingBook_reply race_found_link_failure_script)"
  "not_found (existingBook_reply race_lost_script)"
  "not_found (existingBook_reply insert_refused_script)"
  "not_found (existingBook_reply storage_failure_script)"
  "not_found (existingBook_reply link_failure_script)"
  by (simp_all add: not_found_def race_found_script_def race_found_link_failure_script_def
      race_lost_script_def insert_refused_script_def storage_failure_script_def
      link_failure_script_def example_script_def no_rows_def)

text \<open>
  Claim C1 as stated fails: the insert is refused with a uniqueness violation on the fingerprint
  and the second lookup finds nothing (the other request has withdrawn its record); the handler
  answers 500, not success.
\<close>

theorem race_lost_counterexample:
  "bookError_reply race_lost_script = Some fingerprint_violation
   \<and> code fingerprint_violation = ''23505''
   \<and> fst (upload example_digest race_lost_script example_request)
       = insert_failed_response fingerprint_violation
   \<and> status (fst (upload example_digest race_lost_script example_request)) = 500"
  by code_simp

text \<open>
  Instances of claim C1 as amended: a refused insert whose second lookup finds the record, one
  whose second lookup finds nothing, and an insert that fails for another reason.
\<close>

theorem insert_failure_paths_witness:
  "accepted race_found_script example_request ''alice'' example_file
   \<and> not_found (existingBook_reply race_found_script)
   \<and> bookError_reply race_found_script = Some fingerprint_violation
   \<and> code fingerprint_violation = ''23505''
   \<and> data (raceConditionBook_reply race_found_script) = Some example_book
   \<and> upload example_digest race_found_script example_request
       = (duplicate_response ''book-7'',
          [GetUser, SelectBookByChecksum (fingerprint example_digest example_file), RandomUUID,
           InsertBook (bookData_of ''alice'' ''book-0'' example_file
                         (fingerprint example_digest example_file)),
           SelectBookByChecksum (fingerprint example_digest example_file),
           SelectUserBook ''alice'' ''book-7'', InsertUserBook ''alice'' ''book-7''])
   \<and> data (raceConditionBook_reply race_lost_script) = None
   \<and> upload example_digest race_lost_script example_request
       = (insert_failed_response fingerprint_violation,
          [GetUser, SelectBookByChecksum (fingerprint example_digest example_file), RandomUUID,
           InsertBook (bookData_of ''alice'' ''book-0'' example_file
                         (fingerprint example_digest example_file)),
           SelectBookByChecksum (fingerprint example_digest example_file)])
   \<and> bookError_reply insert_refused_script = Some connection_lost
   \<and> code connection_lost \<noteq> ''23505''
   \<and> upload example_digest insert_refused_script example_request
       = (insert_failed_response connection_lost,
          [GetUser, SelectBookByChecksum (fingerprint example_digest example_file), RandomUUID,
           InsertBook (bookData_of ''alice'' ''book-0'' example_file
                         (fingerprint example_digest example_file))])"
proof -
  have h1: "bookError_reply race_found_script = Some fingerprint_violation"
    by (simp add: race_found_script_def)
  have h2: "bookError_reply race_lost_script = Some fingerprint_violation"
    by (simp add: race_lost_script_def)
  have h3: "bookError_reply insert_refused_script = Some connection_lost"
    by (simp add: insert_refused_script_def)
  have g: "code fingerprint_violation = ''23505'' \<and> code connection_lost \<noteq> ''23505''"
    by (simp add: fingerprint_violation_def connection_lost_def)
  have r1: "data (raceConditionBook_reply race_found_script) = Some example_book
            \<and> ref_id example_book = ''book-7''
            \<and> data (existingLink_reply race_found_script) = None
            \<and> randomUUID_reply race_found_script = ''book-0''"
    by (simp add: race_found_script_def example_script_def example_book_def)
  have r2: "data (raceConditionBook_reply race_lost_script) = None
            \<and> randomUUID_reply race_lost_script = ''book-0''"
    by (simp add: race_lost_script_def example_script_def)
  have r3: "randomUUID_reply insert_refused_script = ''book-0''"
    by (simp add: insert_refused_script_def example_script_def)
  from insert_failure_paths[OF accepted_variants(1) not_found_variants(1) h1,
         where rb = example_book and digest = example_digest]
       insert_failure_paths[OF accepted_variants(3) not_found_variants(3) h2,
         where rb = example_book and digest = example_digest]
       insert_failure_paths[OF accepted_variants(4) not_found_variants(4) h3,
         where rb = example_book and digest = example_digest]
       accepted_variants(1) not_found_variants(1) h1 h3 g r1 r2 r3
  show ?thesis by simp
qed

text \<open>
  Instances of claim C10: the same failure of the link insert, after a refused insert and on the
  ordinary duplicate path.
\<close>

theorem link_failure_in_race_recovery_witness:
  "accepted race_found_link_failure_script example_request ''alice'' example_file
   \<and> data (existingLink_reply race_found_link_failure_script) = None
   \<and> linkError_reply race_found_link_failure_script = Some connection_lost
   \<and> bookError_reply race_found_link_failure_script = Some fingerprint_violation
   \<and> fst (upload example_digest race_found_link_failure_script example_request)
       = duplicate_response ''book-7''
   \<and> status (fst (upload example_digest race_found_link_failure_script example_request)) = 200
   \<and> last (snd (upload example_digest race_found_link_failure_script example_request))
       = InsertUserBook ''alice'' ''book-7''
   \<and> accepted duplicate_link_failure_script example_request ''alice'' example_file
   \<and> existingBook_reply duplicate_link_failure_script = Reply (Some example_book) None
   \<and> linkError_reply duplicate_link_failure_script = Some connection_lost
   \<and> fst (upload example_digest duplicate_link_failure_script example_request)
       = error_response ''Failed to link book to user'' connection_lost
   \<and> status (fst (upload example_digest duplicate_link_failure_script example_request)) = 500"
proof -
  have h1: "data (existingLink_reply race_found_link_failure_script) = None
            \<and> linkError_reply race_found_link_failure_script = Some connection_lost
            \<and> bookError_reply race_found_link_failure_script = Some fingerprint_violation
            \<and> code fingerprint_violation = ''23505''
            \<and> data (raceConditionBook_reply race_found_link_failure_script) = Some example_book"
    by (simp add: race_found_link_failure_script_def race_found_script_def example_script_def
        fingerprint_violation_def)
  have h2: "data (existingLink_reply duplicate_link_failure_script) = None
            \<and> linkError_reply duplicate_link_failure_script = Some connection_lost
            \<and> existingBook_reply duplicate_link_failure_script = Reply (Some example_book) None"
    by (simp add: duplicate_link_failure_script_def duplicate_script_def example_script_def)
  note t1 = link_failure_in_race_recovery
         [OF accepted_variants(2), where le = connection_lost and e = fingerprint_violation
            and rb = example_book and b = example_book and digest = example_digest]
  note t2 = link_failure_in_race_recovery
         [OF accepted_variants(6), where le = connection_lost and e = fingerprint_violation
            and rb = example_book and b = example_book and digest = example_digest]
  have c1: "fst (upload example_digest race_found_link_failure_script example_request)
              = duplicate_response (ref_id example_book)
            \<and> status (fst (upload example_digest race_found_link_failure_script example_request))
              = 200
            \<and> last (snd (upload example_digest race_found_link_failure_script example_request))
              = InsertUserBook ''alice'' (ref_id example_book)"
    using t1 not_found_variants(2) h1 by (simp add: status_responses)
  have c2: "upload example_digest duplicate_link_failure_script example_request
              = (error_response ''Failed to link book to user'' connection_lost,
                 [GetUser, SelectBookByChecksum (fingerprint example_digest example_file),
                  SelectUserBook ''alice'' (ref_id example_book),
                  InsertUserBook ''alice'' (ref_id example_book)])
            \<and> status (fst (upload example_digest duplicate_link_failure_script example_request))
              = 500"
    using t2 h2 by (simp add: status_responses)
  have c3: "fst (upload example_digest duplicate_link_failure_script example_request)
              = error_response ''Failed to link book to user'' connection_lost"
    using c2 by simp
  have b7: "ref_id example_book = ''book-7''" by (simp add: example_book_def)
  from accepted_variants(2) accepted_variants(6) h1 h2 c1[unfolded b7] c2 c3
  show ?thesis by blast
qed

lemma example_backend_fresh:
  "\<forall>b \<in> set (books example_backend).
      file_checksum b \<noteq> fingerprint example_digest example_file
      \<and> id_col b \<noteq> example_uuid (uuids_used example_backend)"
  unfolding example_fingerprint by code_simp

lemma taken_backend_fresh:
  "\<forall>b \<in> set (books taken_backend).
      file_checksum b \<noteq> fingerprint example_digest example_file
      \<and> id_col b \<noteq> example_uuid (uuids_used taken_backend)"
  unfolding example_fingerprint by code_simp

lemma example_backend_free:
  "\<forall>obj \<in> set (epubs example_backend).
      fst obj \<noteq> ''books/'' @ ''alice'' @ ''/'' @ example_uuid (uuids_used example_backend) @ ''.epub''"
  by code_simp

lemma example_backend_nolinks:
  "\<forall>l \<in> set (user_books example_backend). book_id l \<noteq> example_uuid (uuids_used example_backend)"
  by code_simp

lemma taken_backend_taken:
  "(''books/'' @ ''alice'' @ ''/'' @ example_uuid (uuids_used taken_backend) @ ''.epub'', [9])
     \<in> set (epubs taken_backend)"
  by code_simp

lemma example_uuid_next: "example_uuid (uuids_used example_backend) = ''book-1''"
  by code_simp

text \<open>
  Instances of claim C3: a failed upload to storage, a failed link insert, and an upload on the
  reference backend to a path that is taken.
\<close>

theorem compensation_after_failure_witness:
  "accepted storage_failure_script example_request ''alice'' example_file
   \<and> not_found (existingBook_reply storage_failure_script)
   \<and> bookError_reply storage_failure_script = None
   \<and> uploadError_reply storage_failure_script = Some already_exists
   \<and> upload example_digest storage_failure_script example_request
       = (error_response ''Failed to upload file to storage'' already_exists,
          [GetUser, SelectBookByChecksum (fingerprint example_digest example_file), RandomUUID,
           InsertBook (bookData_of ''alice'' ''book-0'' example_file
                         (fingerprint example_digest example_file)),
           StorageUpload ''books/alice/book-0.epub'' (File_arrayBuffer example_file),
           DeleteBook ''book-0''])
   \<and> uploadError_reply link_failure_script = None
   \<and> linkError_reply link_failure_script = Some connection_lost
   \<and> upload example_digest link_failure_script example_request
       = (error_response ''Failed to link book to user'' connection_lost,
          [GetUser, SelectBookByChecksum (fingerprint example_digest example_file), RandomUUID,
           InsertBook (bookData_of ''alice'' ''book-0'' example_file
                         (fingerprint example_digest example_file)),
           StorageUpload ''books/alice/book-0.epub'' (File_arrayBuffer example_file),
           InsertUserBook ''alice'' ''book-0'',
           DeleteBook ''book-0'',
           StorageRemove [''books/alice/book-0.epub'']])
   \<and> upload_as example_digest example_uuid ''alice'' example_file taken_backend
       = (error_response ''Failed to upload file to storage'' already_exists,
          taken_backend \<lparr> session_user := Some ''alice'',
                           uuids_used := Suc (uuids_used taken_backend) \<rparr>)"
proof -
  have a1: "accepted storage_failure_script example_request ''alice'' example_file"
    using accepted_example by (simp add: accepted_def storage_failure_script_def)
  have a2: "accepted link_failure_script example_request ''alice'' example_file"
    using accepted_example by (simp add: accepted_def link_failure_script_def)
  have h1: "not_found (existingBook_reply storage_failure_script)
            \<and> bookError_reply storage_failure_script = None
            \<and> uploadError_reply storage_failure_script = Some already_exists
            \<and> randomUUID_reply storage_failure_script = ''book-0''"
    by (simp add: not_found_def storage_failure_script_def example_script_def no_rows_def)
  have h2: "not_found (existingBook_reply link_failure_script)
            \<and> bookError_reply link_failure_script = None
            \<and> uploadError_reply link_failure_script = None
            \<and> linkError_reply link_failure_script = Some connection_lost
            \<and> randomUUID_reply link_failure_script = ''book-0''"
    by (simp add: not_found_def link_failure_script_def example_script_def no_rows_def)
  note t1 = compensation_after_failure
         [where sc = storage_failure_script and req = example_request and user = "''alice''"
            and fl = example_file and e = already_exists and digest = example_digest
            and db = taken_backend and uuid = example_uuid and old = "[9]"]
  note t2 = compensation_after_failure
         [where sc = link_failure_script and req = example_request and user = "''alice''"
            and fl = example_file and e = connection_lost and digest = example_digest
            and db = taken_backend and uuid = example_uuid and old = "[9]"]
  have c1: "upload example_digest storage_failure_script example_request
       = (error_response ''Failed to upload file to storage'' already_exists,
          [GetUser, SelectBookByChecksum (fingerprint example_digest example_file), RandomUUID,
           InsertBook (bookData_of ''alice'' ''book-0'' example_file
                         (fingerprint example_digest example_file)),
           StorageUpload ''books/alice/book-0.epub'' (File_arrayBuffer example_file),
           DeleteBook ''book-0''])"
    using t1 a1 h1 by simp
  have c2: "upload example_digest link_failure_script example_request
       = (error_response ''Failed to link book to user'' connection_lost,
          [GetUser, SelectBookByChecksum (fingerprint example_digest example_file), RandomUUID,
           InsertBook (bookData_of ''alice'' ''book-0'' example_file
                         (fingerprint example_digest example_file)),
           StorageUpload ''books/alice/book-0.epub'' (File_arrayBuffer example_file),
           InsertUserBook ''alice'' ''book-0'',
           DeleteBook ''book-0'',
           StorageRemove [''books/alice/book-0.epub'']])"
    using t2 a2 h2 by simp
  have c3: "upload_as example_digest example_uuid ''alice'' example_file taken_backend
       = (error_response ''Failed to upload file to storage'' already_exists,
          taken_backend \<lparr> session_user := Some ''alice'',
                           uuids_used := Suc (uuids_used taken_backend) \<rparr>)"
    using t1 example_file_ok taken_backend_fresh taken_backend_taken by blast
  from a1 h1 h2 c1 c2 c3 show ?thesis by blast
qed

text \<open>
  Claim C2 as stated fails: the lookup returns an existing record, the user has no link yet and
  the insert of the link fails; the handler answers 500, not success.
\<close>

theorem duplicate_link_failure_counterexample:
  "existingBook_reply duplicate_link_failure_script = Reply (Some example_book) None
   \<and> fst (upload example_digest duplicate_link_failure_script example_request)
       = error_response ''Failed to link book to user'' connection_lost
   \<and> status (fst (upload example_digest duplicate_link_failure_script example_request)) = 500"
  by code_simp

text \<open>
  Instances of claim C2 as amended: a duplicate upload against the script, and two users
  uploading the same bytes, one after the other, on the reference backend.
\<close>

theorem duplicate_path_witness:
  "accepted duplicate_script example_request ''alice'' example_file
   \<and> existingBook_reply duplicate_script = Reply (Some example_book) None
   \<and> upload example_digest duplicate_script example_request
       = (duplicate_response ''book-7'',
          [GetUser, SelectBookByChecksum (fingerprint example_digest example_file),
           SelectUserBook ''alice'' ''book-7'', InsertUserBook ''alice'' ''book-7''])
   \<and> File_arrayBuffer example_file' = File_arrayBuffer example_file
   \<and> fst (upload_as example_digest example_uuid ''bob'' example_file'
             (snd (upload_as example_digest example_uuid ''alice'' example_file example_backend)))
       = duplicate_response ''book-1''
   \<and> filter (\<lambda>b. file_checksum b = fingerprint example_digest example_file)
        (books (snd (upload_as example_digest example_uuid ''bob'' example_file'
               (snd (upload_as example_digest example_uuid ''alice'' example_file example_backend)))))
       = [bookData_of ''alice'' ''book-1'' example_file (fingerprint example_digest example_file)]
   \<and> map user_id (filter (\<lambda>l. book_id l = ''book-1'')
        (user_books (snd (upload_as example_digest example_uuid ''bob'' example_file'
               (snd (upload_as example_digest example_uuid ''alice'' example_file example_backend))))))
       = [''alice'', ''bob'']"
proof -
  have a1: "accepted duplicate_script example_request ''alice'' example_file"
    using accepted_example by (simp add: accepted_def duplicate_script_def)
  have h1: "existingBook_reply duplicate_script = Reply (Some example_book) None
            \<and> data (existingLink_reply duplicate_script) = None
            \<and> linkError_reply duplicate_script = None
            \<and> ref_id example_book = ''book-7''"
    by (simp add: duplicate_script_def example_script_def example_book_def)
  have same: "File_arrayBuffer example_file' = File_arrayBuffer example_file"
    by (simp add: example_file_def example_file'_def)
  have other: "''alice'' \<noteq> ''bob''" by simp
  note t = duplicate_path
         [where sc = duplicate_script and req = example_request and user = "''alice''"
            and fl = example_file and b = example_book and digest = example_digest
            and ?file1.0 = example_file and ?file2.0 = example_file' and db = example_backend
            and uuid = example_uuid and ?u1.0 = "''alice''" and ?u2.0 = "''bob''"]
  have c1: "upload example_digest duplicate_script example_request
       = (duplicate_response ''book-7'',
          [GetUser, SelectBookByChecksum (fingerprint example_digest example_file),
           SelectUserBook ''alice'' ''book-7'', InsertUserBook ''alice'' ''book-7''])"
    using t a1 h1 by (simp add: prod_eq_iff)
  have c2: "fst (upload_as example_digest example_uuid ''bob'' example_file'
             (snd (upload_as example_digest example_uuid ''alice'' example_file example_backend)))
       = duplicate_response (example_uuid (uuids_used example_backend))
   \<and> filter (\<lambda>b. file_checksum b = fingerprint example_digest example_file)
        (books (snd (upload_as example_digest example_uuid ''bob'' example_file'
               (snd (upload_as example_digest example_uuid ''alice'' example_file example_backend)))))
       = [bookData_of ''alice'' (example_uuid (uuids_used example_backend)) example_file
            (fingerprint example_digest example_file)]
   \<and> map user_id (filter (\<lambda>l. book_id l = example_uuid (uuids_used example_backend))
        (user_books (snd (upload_as example_digest example_uuid ''bob'' example_file'
               (snd (upload_as example_digest example_uuid ''alice'' example_file example_backend))))))
       = [''alice'', ''bob'']"
    using t example_file_ok example_file'_ok same example_backend_fresh example_backend_free
      example_backend_nolinks other
    by blast
  from a1 h1 same c1 c2[unfolded example_uuid_next] show ?thesis by blast
qed

text \<open>
  Instances of claim C6: four bytes in hexadecimal, and the fingerprint of the example file.
\<close>

theorem fingerprint_rendering_witness:
  "hashHex_of [0, 10, 171, 255] = ''000aabff''
   \<and> length (example_digest (File_arrayBuffer example_file)) = 32
   \<and> length (fingerprint example_digest example_file) = 64
   \<and> File_arrayBuffer example_file' = File_arrayBuffer example_file
   \<and> fingerprint example_digest example_file' = fingerprint example_digest example_file
   \<and> accepted example_script example_request ''alice'' example_file
   \<and> take 2 (snd (upload example_digest example_script example_request))
       = [GetUser, SelectBookByChecksum
            ''0000000000000000000000000000000000000000000000000000000000000005'']"
proof -
  have l: "length (example_digest (File_arrayBuffer example_file)) = 32"
    by (simp add: example_digest_def)
  have same: "File_arrayBuffer example_file' = File_arrayBuffer example_file"
    by (simp add: example_file_def example_file'_def)
  have hx: "concat (map (\<lambda>b. [hex_digit (unat b div 16), hex_digit (unat b mod 16)])
              [0, 10, 171, 255 :: 8 word]) = ''000aabff''"
    by code_simp
  note t = fingerprint_rendering
         [where bs = "[0, 10, 171, 255]" and digest = example_digest and ?file = example_file
            and file' = example_file' and sc = example_script and req = example_request
            and user = "''alice''"]
  have c1: "hashHex_of [0, 10, 171, 255] = ''000aabff''"
    using t hx by simp
  have c2: "length (fingerprint example_digest example_file) = 64"
    using t l by blast
  have c3: "fingerprint example_digest example_file' = fingerprint example_digest example_file"
    using t same by blast
  have c4: "take 2 (snd (upload example_digest example_script example_request))
       = [GetUser, SelectBookByChecksum
            ''0000000000000000000000000000000000000000000000000000000000000005'']"
    using t accepted_example unfolding example_fingerprint by blast
  from l same accepted_example c1 c2 c3 c4 show ?thesis by blast
qed

text \<open>
  Instances of claim C8: each outcome of the reading page, and a user of the reference backend
  who asks for a book that exists and is not theirs.
\<close>

theorem reading_page_outcomes_witness:
  "read_page unauthenticated_script ''book-0'' = (Redirect ''/auth/login'', [GetUser])
   \<and> read_page example_script ''book-0'' = (Redirect ''/'', [GetUser, SelectBookById ''book-0''])
   \<and> read_page (example_script \<lparr> book_reply := Reply (Some example_entry) None \<rparr>) ''book-0''
       = (Redirect ''/'',
          [GetUser, SelectBookById ''book-0'', SelectUserBook ''alice'' ''book-0''])
   \<and> read_page (reader_script
        \<lparr> book_reply := Reply (Some (example_entry \<lparr> entry_manifest_path := Some [] \<rparr>)) None \<rparr>)
        ''book-0''
       = (ManifestNotFound,
          [GetUser, SelectBookById ''book-0'', SelectUserBook ''alice'' ''book-0''])
   \<and> read_page reader_script ''book-0''
       = (BookReader ''book-0'' ''books_0/manifest.json'' ''Walden'',
          [GetUser, SelectBookById ''book-0'', SelectUserBook ''alice'' ''book-0''])
   \<and> session_user example_backend = Some ''bob''
   \<and> filter (\<lambda>b. id_col b = ''book-0'') (books example_backend) \<noteq> []
   \<and> read_as example_digest example_uuid ''book-0'' example_backend
       = (Redirect ''/'', example_backend)
   \<and> filter (\<lambda>b. id_col b = ''book-9'') (books example_backend) = []
   \<and> read_as example_digest example_uuid ''book-9'' example_backend
       = (Redirect ''/'', example_backend)"
proof -
  let ?sc3 = "example_script \<lparr> book_reply := Reply (Some example_entry) None \<rparr>"
  let ?e4 = "example_entry \<lparr> entry_manifest_path := Some [] \<rparr>"
  let ?sc4 = "reader_script \<lparr> book_reply := Reply (Some ?e4) None \<rparr>"
  have h1: "data (getUser_reply unauthenticated_script) = None"
    by (simp add: unauthenticated_script_def)
  have h2: "getUser_reply example_script = Reply (Some ''alice'') None
            \<and> error (book_reply example_script) \<noteq> None"
    by (simp add: example_script_def)
  have h3: "getUser_reply ?sc3 = Reply (Some ''alice'') None
            \<and> book_reply ?sc3 = Reply (Some example_entry) None
            \<and> data (existingLink_reply ?sc3) = None"
    by (simp add: example_script_def)
  have h4: "getUser_reply ?sc4 = Reply (Some ''alice'') None
            \<and> book_reply ?sc4 = Reply (Some ?e4) None
            \<and> data (existingLink_reply ?sc4) = Some 0
            \<and> entry_manifest_path ?e4 = Some []"
    by (simp add: reader_script_def example_script_def)
  have h5: "getUser_reply reader_script = Reply (Some ''alice'') None
            \<and> book_reply reader_script = Reply (Some example_entry) None
            \<and> data (existingLink_reply reader_script) = Some 0
            \<and> entry_manifest_path example_entry = Some ''books_0/manifest.json''
            \<and> ''books_0/manifest.json'' \<noteq> []
            \<and> entry_title example_entry = ''Walden''"
    by (simp add: reader_script_def example_script_def example_entry_def)
  have h6: "session_user example_backend = Some ''bob''
            \<and> filter (\<lambda>l. user_id l = ''bob'' \<and> book_id l = ''book-0'') (user_books example_backend) = []
            \<and> filter (\<lambda>b. id_col b = ''book-0'') (books example_backend) \<noteq> []"
    by (simp add: example_backend_def)
  have c1: "read_page unauthenticated_script ''book-0'' = (Redirect ''/auth/login'', [GetUser])"
    using reading_page_outcomes[where sc = unauthenticated_script and ident = "''book-0''"] h1
    by blast
  have c2: "read_page example_script ''book-0''
            = (Redirect ''/'', [GetUser, SelectBookById ''book-0''])"
    using reading_page_outcomes[where sc = example_script and ident = "''book-0''"
        and user = "''alice''"] h2
    by blast
  have c3: "read_page ?sc3 ''book-0''
       = (Redirect ''/'',
          [GetUser, SelectBookById ''book-0'', SelectUserBook ''alice'' ''book-0''])"
    using reading_page_outcomes[where sc = ?sc3 and ident = "''book-0''"
        and user = "''alice''" and book = example_entry] h3
    by blast
  have c4: "read_page ?sc4 ''book-0''
       = (ManifestNotFound,
          [GetUser, SelectBookById ''book-0'', SelectUserBook ''alice'' ''book-0''])"
    using reading_page_outcomes[where sc = ?sc4 and ident = "''book-0''"
        and user = "''alice''" and book = ?e4 and l = 0] h4
    by blast
  have c5: "read_page reader_script ''book-0''
       = (BookReader ''book-0'' ''books_0/manifest.json'' (entry_title example_entry),
          [GetUser, SelectBookById ''book-0'', SelectUserBook ''alice'' ''book-0''])"
    using reading_page_outcomes[where sc = reader_script and ident = "''book-0''"
        and user = "''alice''" and book = example_entry and l = 0
        and manifestPath = "''books_0/manifest.json''"] h5
    by blast
  note t6 = reading_page_outcomes[where ident = "''book-0''" and user = "''bob''"
        and digest = example_digest and uuid = example_uuid and db = example_backend]
  have c6: "read_as example_digest example_uuid ''book-0'' example_backend
       = (Redirect ''/'', example_backend)"
    using t6 h6 by (simp add: prod_eq_iff)
  have h7: "filter (\<lambda>b. id_col b = ''book-9'') (books example_backend) = []"
    by (simp add: example_backend_def)
  note t7 = reading_page_outcomes[where ident = "''book-9''" and user = "''bob''"
        and digest = example_digest and uuid = example_uuid and db = example_backend]
  have c7: "read_as example_digest example_uuid ''book-9'' example_backend
       = (Redirect ''/'', example_backend)"
    using t7 h6 h7 by (simp add: prod_eq_iff)
  from c1 c2 c3 c4 c5 c6 c7 h5 h6 h7 show ?thesis by simp
qed

end
